theory Spec2Isabelle
  imports Main "HOL-Library.Word"
begin

section \<open>Instruction selection of the AGX shader compiler\<close>

text \<open>
  The development embeds the instruction selector and the block builder of
  \<^verbatim>\<open>src/asahi/compiler/agx_compile.h\<close>. Every \<^verbatim>\<open>assert\<close> and
  \<^verbatim>\<open>unreachable\<close> of the source is a branch that ends the compilation with an
  error value (the behaviour of a build with assertions enabled). Builder state is
  passed explicitly: a function that emits returns the updated builder.
\<close>

subsection \<open>Errors\<close>

text \<open>
  \<open>Assert e\<close>: the assertion with expression text \<open>e\<close> failed.
  \<open>Unreachable m\<close>: \<^verbatim>\<open>unreachable(m)\<close> was reached.
  \<open>Unhandled_intrinsic n\<close>: standard error received \<^verbatim>\<open>Unhandled intrinsic n\<close>, then
  \<^verbatim>\<open>assert(0)\<close> stopped the process.
  \<open>Unhandled_ALU_op n\<close>: standard error received \<^verbatim>\<open>Unhandled ALU op n\<close>, then
  \<^verbatim>\<open>unreachable("Unhandled ALU instruction")\<close> stopped the process.
  \<open>Undefined_behaviour m\<close>: the C program dereferences a null pointer or reads the
  last entry of an empty list; the model stops there.
\<close>

datatype error =
    Assert string
  | Unreachable string
  | Unhandled_intrinsic string
  | Unhandled_ALU_op string
  | Undefined_behaviour string

subsection \<open>Source IR (NIR), as far as the selector reads it\<close>

text \<open>
  Modelled from the spec: the types of NIR (\<^verbatim>\<open>nir.h\<close>, \<^verbatim>\<open>shader_enums.h\<close>) are not part of
  the sources at hand. An instruction has a kind, typed sources that refer to SSA
  values, and at most one destination SSA value with a bit width and a component
  count; the records below hold the fields that \<^verbatim>\<open>agx_compile.h\<close> reads.
\<close>

datatype gl_shader_stage =
    MESA_SHADER_VERTEX
  | MESA_SHADER_TESS_CTRL
  | MESA_SHADER_TESS_EVAL
  | MESA_SHADER_GEOMETRY
  | MESA_SHADER_FRAGMENT
  | MESA_SHADER_COMPUTE
  | MESA_SHADER_KERNEL

record nir_intrinsic_info =
  info_name :: string
  has_dest :: bool

text \<open>
  The intrinsics that \<^verbatim>\<open>agx_emit_intrinsic\<close> names, and every other member of the
  enumeration, which is identified by its entry of \<^verbatim>\<open>nir_intrinsic_infos\<close>.
\<close>

datatype nir_intrinsic_op =
    nir_intrinsic_load_barycentric_pixel
  | nir_intrinsic_load_barycentric_centroid
  | nir_intrinsic_load_barycentric_sample
  | nir_intrinsic_load_barycentric_at_sample
  | nir_intrinsic_load_barycentric_at_offset
  | nir_intrinsic_load_interpolated_input
  | nir_intrinsic_load_input
  | nir_intrinsic_store_output
  | nir_intrinsic_other nir_intrinsic_info

text \<open>
  Modelled from the spec: the table \<^verbatim>\<open>nir_intrinsic_infos\<close> is generated code that
  is not part of the sources at hand. Loads define a value, the output store does not.
\<close>

definition nir_intrinsic_infos :: "nir_intrinsic_op \<Rightarrow> nir_intrinsic_info" where
  "nir_intrinsic_infos i =
     (case i of
        nir_intrinsic_load_barycentric_pixel \<Rightarrow>
          \<lparr>info_name = ''load_barycentric_pixel'', has_dest = True\<rparr>
      | nir_intrinsic_load_barycentric_centroid \<Rightarrow>
          \<lparr>info_name = ''load_barycentric_centroid'', has_dest = True\<rparr>
      | nir_intrinsic_load_barycentric_sample \<Rightarrow>
          \<lparr>info_name = ''load_barycentric_sample'', has_dest = True\<rparr>
      | nir_intrinsic_load_barycentric_at_sample \<Rightarrow>
          \<lparr>info_name = ''load_barycentric_at_sample'', has_dest = True\<rparr>
      | nir_intrinsic_load_barycentric_at_offset \<Rightarrow>
          \<lparr>info_name = ''load_barycentric_at_offset'', has_dest = True\<rparr>
      | nir_intrinsic_load_interpolated_input \<Rightarrow>
          \<lparr>info_name = ''load_interpolated_input'', has_dest = True\<rparr>
      | nir_intrinsic_load_input \<Rightarrow>
          \<lparr>info_name = ''load_input'', has_dest = True\<rparr>
      | nir_intrinsic_store_output \<Rightarrow>
          \<lparr>info_name = ''store_output'', has_dest = False\<rparr>
      | nir_intrinsic_other info \<Rightarrow> info)"

text \<open>An SSA definition: its index, component count and bit width.\<close>

record nir_ssa_def =
  def_index :: nat
  def_num_components :: nat
  def_bit_size :: nat

text \<open>
  What a source operand knows of the instruction that defines it: a constant load
  (with the constant, read as an unsigned number), an intrinsic, or anything else.
\<close>

datatype nir_parent_instr =
    parent_load_const "64 word"
  | parent_intrinsic nir_intrinsic_op
  | parent_other

record nir_src =
  ssa :: nir_ssa_def
  parent_instr :: nir_parent_instr

text \<open>
  Modelled from the spec: the accessors of \<^verbatim>\<open>nir.h\<close> are not part of the sources at
  hand. \<open>nir_src_as_uint\<close> is called only after \<open>nir_src_is_const\<close> was asserted.
\<close>

definition nir_src_bit_size :: "nir_src \<Rightarrow> nat" where
  "nir_src_bit_size s = def_bit_size (ssa s)"

definition nir_src_num_components :: "nir_src \<Rightarrow> nat" where
  "nir_src_num_components s = def_num_components (ssa s)"

definition nir_src_is_const :: "nir_src \<Rightarrow> bool" where
  "nir_src_is_const s = (case parent_instr s of parent_load_const _ \<Rightarrow> True | _ \<Rightarrow> False)"

definition nir_src_as_uint :: "nir_src \<Rightarrow> 64 word" where
  "nir_src_as_uint s = (case parent_instr s of parent_load_const v \<Rightarrow> v | _ \<Rightarrow> 0)"

definition nir_src_as_intrinsic :: "nir_src \<Rightarrow> nir_intrinsic_op option" where
  "nir_src_as_intrinsic s = (case parent_instr s of parent_intrinsic i \<Rightarrow> Some i | _ \<Rightarrow> None)"

text \<open>
  Modelled from the spec: \<^verbatim>\<open>nir_const_value\<close> and \<^verbatim>\<open>nir_const_value_as_uint\<close> are declared
  in \<^verbatim>\<open>nir.h\<close>. A constant is the 64 bits of storage of the union; its bit pattern at a
  bit width is its low \<open>bit_size\<close> bits.
\<close>

type_synonym nir_const_value = "64 word"

definition nir_const_value_as_uint :: "nir_const_value \<Rightarrow> nat \<Rightarrow> 64 word" where
  "nir_const_value_as_uint v bit_size = take_bit bit_size v"

text \<open>Arrays of the source (\<^verbatim>\<open>value[]\<close>, \<^verbatim>\<open>src[]\<close>, \<^verbatim>\<open>swizzle[]\<close>) are functions of the index.\<close>

record nir_load_const_instr =
  const_def :: nir_ssa_def
  const_value :: "nat \<Rightarrow> nir_const_value"

record nir_intrinsic_instr =
  intrinsic :: nir_intrinsic_op
  intr_dest :: nir_ssa_def
  intr_num_components :: nat
  intr_src :: "nat \<Rightarrow> nir_src"
  nir_intrinsic_base :: "32 word"
  nir_intrinsic_component :: "32 word"
  nir_intrinsic_write_mask :: "32 word"

text \<open>
  Modelled from the spec: \<^verbatim>\<open>nir_get_io_offset_src\<close> lives in \<^verbatim>\<open>nir.c\<close>. It gives the
  position of the offset operand, and no operand for an intrinsic that is not an
  input or output access.
\<close>

definition nir_get_io_offset_src :: "nir_intrinsic_instr \<Rightarrow> nat option" where
  "nir_get_io_offset_src instr =
     (case intrinsic instr of
        nir_intrinsic_load_input \<Rightarrow> Some 0
      | nir_intrinsic_load_interpolated_input \<Rightarrow> Some 1
      | nir_intrinsic_store_output \<Rightarrow> Some 1
      | _ \<Rightarrow> None)"

record nir_op_info =
  op_name :: string
  num_inputs :: nat

datatype nir_op =
    nir_op_vec2
  | nir_op_vec3
  | nir_op_vec4
  | nir_op_vec8
  | nir_op_vec16
  | nir_op_other nir_op_info

text \<open>
  Modelled from the spec: \<^verbatim>\<open>nir_op_infos\<close> and \<^verbatim>\<open>nir_op_is_vec\<close> are generated or
  declared outside the sources at hand. An n-way vector pack has n inputs.
\<close>

definition nir_op_infos :: "nir_op \<Rightarrow> nir_op_info" where
  "nir_op_infos opc =
     (case opc of
        nir_op_vec2 \<Rightarrow> \<lparr>op_name = ''vec2'', num_inputs = 2\<rparr>
      | nir_op_vec3 \<Rightarrow> \<lparr>op_name = ''vec3'', num_inputs = 3\<rparr>
      | nir_op_vec4 \<Rightarrow> \<lparr>op_name = ''vec4'', num_inputs = 4\<rparr>
      | nir_op_vec8 \<Rightarrow> \<lparr>op_name = ''vec8'', num_inputs = 8\<rparr>
      | nir_op_vec16 \<Rightarrow> \<lparr>op_name = ''vec16'', num_inputs = 16\<rparr>
      | nir_op_other info \<Rightarrow> info)"

definition nir_op_is_vec :: "nir_op \<Rightarrow> bool" where
  "nir_op_is_vec opc = (case opc of nir_op_other _ \<Rightarrow> False | _ \<Rightarrow> True)"

record nir_alu_src =
  alu_src_src :: nir_src
  negate :: bool
  src_abs :: bool
  swizzle :: "nat \<Rightarrow> nat"

record nir_alu_instr =
  alu_op :: nir_op
  alu_dest :: nir_ssa_def
  alu_src :: "nat \<Rightarrow> nir_alu_src"

datatype nir_instr =
    nir_instr_type_alu nir_alu_instr
  | nir_instr_type_deref
  | nir_instr_type_call
  | nir_instr_type_tex
  | nir_instr_type_intrinsic nir_intrinsic_instr
  | nir_instr_type_load_const nir_load_const_instr
  | nir_instr_type_jump
  | nir_instr_type_ssa_undef
  | nir_instr_type_phi
  | nir_instr_type_parallel_copy

datatype nir_cf_node =
    nir_cf_node_block "nir_instr list"
  | nir_cf_node_if
  | nir_cf_node_loop
  | nir_cf_node_function

datatype nir_variable_mode = nir_var_shader_in | nir_var_shader_out | nir_var_other

record nir_variable =
  var_mode :: nir_variable_mode
  driver_location :: "32 word"
  location :: "32 word"
  var_index :: nat

record nir_function_impl =
  ssa_alloc :: nat
  body :: "nir_cf_node list"

record nir_function =
  impl :: "nir_function_impl option"

record nir_shader =
  info_stage :: gl_shader_stage
  variables :: "nir_variable list"
  shader_functions :: "nir_function list"

text \<open>
  Modelled from the spec: \<^verbatim>\<open>nir_find_variable_with_driver_location\<close> is declared in
  \<^verbatim>\<open>nir.h\<close>. It gives the first variable of the mode at the driver location, or none.
\<close>

definition nir_find_variable_with_driver_location ::
  "nir_shader \<Rightarrow> nir_variable_mode \<Rightarrow> 32 word \<Rightarrow> nir_variable option" where
  "nir_find_variable_with_driver_location shader m loc =
     find (\<lambda>v. var_mode v = m \<and> driver_location v = loc) (variables shader)"

text \<open>
  Modelled from the spec: the enumeration \<^verbatim>\<open>gl_frag_result\<close> is declared in
  \<^verbatim>\<open>shader_enums.h\<close>. The implicit colour location and the first explicit data location
  are two of its members (depth 0, stencil 1, colour 2, sample mask 3, data0 4); the
  properties below use only that they differ.
\<close>

definition FRAG_RESULT_COLOR :: "32 word" where
  "FRAG_RESULT_COLOR = 2"

definition FRAG_RESULT_DATA0 :: "32 word" where
  "FRAG_RESULT_DATA0 = 4"

subsection \<open>Target IR\<close>

text \<open>
  Modelled from the spec: \<^verbatim>\<open>agx_compiler.h\<close> and the generated \<^verbatim>\<open>agx_builder.h\<close> are
  not part of the sources at hand. An operand is absent, a virtual register named by an
  SSA index with a size, or an immediate. The size of a register is kept as the bit
  width it was made for.
\<close>

datatype agx_index =
    agx_null
  | agx_get_index nat nat
  | agx_immediate "32 word"

definition agx_size_for_bits :: "nat \<Rightarrow> nat" where
  "agx_size_for_bits bits = bits"

definition agx_src_index :: "nir_src \<Rightarrow> agx_index" where
  "agx_src_index s = agx_get_index (def_index (ssa s)) (agx_size_for_bits (nir_src_bit_size s))"

definition agx_dest_index :: "nir_ssa_def \<Rightarrow> agx_index" where
  "agx_dest_index d = agx_get_index (def_index d) (agx_size_for_bits (def_bit_size d))"

datatype agx_opcode =
    AGX_OPCODE_MOV_IMM
  | AGX_OPCODE_LD_VARY
  | AGX_OPCODE_ST_VARY
  | AGX_OPCODE_WRITEOUT
  | AGX_OPCODE_BLEND
  | AGX_OPCODE_P_EXTRACT
  | AGX_OPCODE_P_COMBINE
  | AGX_OPCODE_STOP
  | AGX_OPCODE_TRAP

type_synonym agx_format = nat

text \<open>
  Modelled from the spec: a pseudo-instruction holds an opcode, a destination, up to
  four sources and the immediate fields. A new instruction is zeroed: no destination,
  no sources, fields 0.
\<close>

record agx_instr =
  op :: agx_opcode
  dest :: agx_index
  src :: "agx_index list"
  imm :: "64 word"
  instr_mask :: "32 word"
  format :: agx_format
  channel :: nat

definition agx_alloc_instr :: "agx_opcode \<Rightarrow> agx_instr" where
  "agx_alloc_instr opc =
     \<lparr>op = opc, dest = agx_null, src = [], imm = 0, instr_mask = 0, format = 0, channel = 0\<rparr>"

record agx_block =
  name :: nat
  predecessors :: "nat list"
  instructions :: "agx_instr list"

record agx_shader_key =
  tib_formats :: "nat \<Rightarrow> agx_format"

text \<open>
  Modelled from the spec: the shader context owns the block list, the counter of
  virtual registers, the stage, the key and a reference to the source shader. Blocks
  are identified by their position in \<open>blocks\<close>, which only grows at its end. \<open>key\<close> is
  a pointer in the source and may be null.
\<close>

record agx_context =
  nir :: nir_shader
  stage :: gl_shader_stage
  key :: "agx_shader_key option"
  blocks :: "agx_block list"
  alloc :: nat

text \<open>
  Modelled from the spec: a builder is the context and a cursor. The source only makes
  cursors after a block, so the cursor is the block after whose last instruction the
  builder inserts.
\<close>

record agx_builder =
  shader :: agx_context
  cursor :: nat

definition agx_init_builder :: "agx_context \<Rightarrow> nat \<Rightarrow> agx_builder" where
  "agx_init_builder ctx blk = \<lparr>shader = ctx, cursor = blk\<rparr>"

definition update_cursor_block :: "(agx_block \<Rightarrow> agx_block) \<Rightarrow> agx_builder \<Rightarrow> agx_builder" where
  "update_cursor_block f b =
     b\<lparr>shader := (shader b)\<lparr>blocks := (blocks (shader b))[cursor b := f (blocks (shader b) ! cursor b)]\<rparr>\<rparr>"

definition agx_builder_insert :: "agx_builder \<Rightarrow> agx_instr \<Rightarrow> agx_builder" where
  "agx_builder_insert b I = update_cursor_block (\<lambda>blk. blk\<lparr>instructions := instructions blk @ [I]\<rparr>) b"

text \<open>The instructions of the block the builder inserts into.\<close>

definition cursor_instructions :: "agx_builder \<Rightarrow> agx_instr list" where
  "cursor_instructions b = instructions (blocks (shader b) ! cursor b)"

text \<open>
  Modelled from the spec: the builder functions of the generated \<^verbatim>\<open>agx_builder.h\<close>. Each
  makes one instruction of its opcode from its arguments and inserts it at the cursor.
\<close>

definition agx_mov_imm_to :: "agx_builder \<Rightarrow> agx_index \<Rightarrow> 64 word \<Rightarrow> agx_builder" where
  "agx_mov_imm_to b dst v =
     agx_builder_insert b ((agx_alloc_instr AGX_OPCODE_MOV_IMM)\<lparr>dest := dst, imm := v\<rparr>)"

definition agx_ld_vary_to :: "agx_builder \<Rightarrow> agx_index \<Rightarrow> agx_index \<Rightarrow> agx_builder" where
  "agx_ld_vary_to b dst s0 =
     agx_builder_insert b ((agx_alloc_instr AGX_OPCODE_LD_VARY)\<lparr>dest := dst, src := [s0]\<rparr>)"

definition agx_st_vary :: "agx_builder \<Rightarrow> agx_index \<Rightarrow> agx_index \<Rightarrow> agx_builder" where
  "agx_st_vary b s0 s1 =
     agx_builder_insert b ((agx_alloc_instr AGX_OPCODE_ST_VARY)\<lparr>src := [s0, s1]\<rparr>)"

definition agx_writeout :: "agx_builder \<Rightarrow> 64 word \<Rightarrow> agx_builder" where
  "agx_writeout b v = agx_builder_insert b ((agx_alloc_instr AGX_OPCODE_WRITEOUT)\<lparr>imm := v\<rparr>)"

definition agx_blend :: "agx_builder \<Rightarrow> agx_index \<Rightarrow> agx_format \<Rightarrow> agx_builder" where
  "agx_blend b s0 fmt =
     agx_builder_insert b ((agx_alloc_instr AGX_OPCODE_BLEND)\<lparr>src := [s0], format := fmt\<rparr>)"

definition agx_p_combine_to ::
  "agx_builder \<Rightarrow> agx_index \<Rightarrow> agx_index \<Rightarrow> agx_index \<Rightarrow> agx_index \<Rightarrow> agx_index \<Rightarrow> agx_builder" where
  "agx_p_combine_to b dst s0 s1 s2 s3 =
     agx_builder_insert b ((agx_alloc_instr AGX_OPCODE_P_COMBINE)\<lparr>dest := dst, src := [s0, s1, s2, s3]\<rparr>)"

definition agx_p_extract_to :: "agx_builder \<Rightarrow> agx_index \<Rightarrow> agx_index \<Rightarrow> nat \<Rightarrow> agx_builder" where
  "agx_p_extract_to b dst s0 c =
     agx_builder_insert b ((agx_alloc_instr AGX_OPCODE_P_EXTRACT)\<lparr>dest := dst, src := [s0], channel := c\<rparr>)"

text \<open>
  Modelled from the spec: \<open>agx_p_extract\<close> takes a fresh virtual register from the
  counter of the context (\<^verbatim>\<open>alloc++\<close>), of the size of the vector, and extracts into it.
\<close>

definition agx_index_size :: "agx_index \<Rightarrow> nat" where
  "agx_index_size i = (case i of agx_get_index _ sz \<Rightarrow> sz | _ \<Rightarrow> 0)"

definition agx_p_extract :: "agx_builder \<Rightarrow> agx_index \<Rightarrow> nat \<Rightarrow> agx_builder \<times> agx_index" where
  "agx_p_extract b vec c =
     (let tmp = agx_get_index (alloc (shader b)) (agx_index_size vec);
          b1 = b\<lparr>shader := (shader b)\<lparr>alloc := alloc (shader b) + 1\<rparr>\<rparr>
      in (agx_p_extract_to b1 tmp vec c, tmp))"

definition agx_stop :: "agx_builder \<Rightarrow> agx_builder" where
  "agx_stop b = agx_builder_insert b (agx_alloc_instr AGX_OPCODE_STOP)"

definition agx_trap :: "agx_builder \<Rightarrow> agx_builder" where
  "agx_trap b = agx_builder_insert b (agx_alloc_instr AGX_OPCODE_TRAP)"

text \<open>
  Modelled from the spec: \<^verbatim>\<open>BITFIELD_MASK(b)\<close> is a macro of \<^verbatim>\<open>util/macros.h\<close>: the
  32-bit unsigned number whose \<open>b\<close> low bits are set.
\<close>

definition BITFIELD_MASK :: "nat \<Rightarrow> 32 word" where
  "BITFIELD_MASK b = (if b = 32 then - 1 else push_bit (b mod 32) 1 - 1)"

subsection \<open>The instruction selector\<close>

definition agx_emit_load_const :: "agx_builder \<Rightarrow> nir_load_const_instr \<Rightarrow> error + agx_builder" where
  "agx_emit_load_const b instr =
     (let bit_size = def_bit_size (const_def instr) in
      if def_num_components (const_def instr) \<noteq> 1
        then Inl (Assert ''instr->def.num_components == 1'')
      else if \<not> (bit_size = 16 \<or> bit_size = 32)
        then Inl (Assert ''bit_size == 16 || bit_size == 32'')
      else Inr (agx_mov_imm_to b
                  (agx_get_index (def_index (const_def instr)) (agx_size_for_bits bit_size))
                  (nir_const_value_as_uint (const_value instr 0) bit_size)))"

definition agx_emit_load_attr :: "agx_builder \<Rightarrow> nir_intrinsic_instr \<Rightarrow> error + agx_builder" where
  "agx_emit_load_attr b instr = Inl (Unreachable ''stub'')"

text \<open>
  \<^verbatim>\<open>ld->mask = ...\<close> writes to the instruction that \<open>agx_ld_vary_to\<close> has just put at
  the end of the block of the cursor.
\<close>

definition update_last_instr :: "(agx_instr \<Rightarrow> agx_instr) \<Rightarrow> agx_builder \<Rightarrow> agx_builder" where
  "update_last_instr f b =
     update_cursor_block
       (\<lambda>blk. if instructions blk = [] then blk
              else blk\<lparr>instructions := butlast (instructions blk) @ [f (last (instructions blk))]\<rparr>) b"

text \<open>
  \<^verbatim>\<open>unsigned imm_index = nir_intrinsic_base(instr) + nir_src_as_uint(*offset)\<close>: the
  base is an \<^verbatim>\<open>int\<close>, the offset a \<^verbatim>\<open>uint64_t\<close>; the sum is taken in 64 bits and cut
  to 32.
\<close>

definition agx_emit_load_vary :: "agx_builder \<Rightarrow> nir_intrinsic_instr \<Rightarrow> error + agx_builder" where
  "agx_emit_load_vary b instr =
     (let components = intr_num_components instr;
          smooth = (intrinsic instr = nir_intrinsic_load_interpolated_input)
      in
      if smooth then
        (case nir_src_as_intrinsic (intr_src instr 0) of
           None \<Rightarrow> Inl (Assert ''parent'')
         | Some parent \<Rightarrow>
             if parent \<noteq> nir_intrinsic_load_barycentric_pixel
               then Inl (Assert ''parent->intrinsic == nir_intrinsic_load_barycentric_pixel'')
             else
               (case nir_get_io_offset_src instr of
                  None \<Rightarrow> Inl (Undefined_behaviour ''*offset'')
                | Some k \<Rightarrow>
                    (let offset = intr_src instr k in
                     if \<not> nir_src_is_const offset
                       then Inl (Assert ''nir_src_is_const(*offset) && todo: indirects'')
                     else
                       (let imm_index :: 32 word =
                              ucast ((scast (nir_intrinsic_base instr) :: 64 word) + nir_src_as_uint offset);
                            ld = agx_ld_vary_to b (agx_dest_index (intr_dest instr))
                                   (agx_immediate imm_index)
                        in Inr (if components \<noteq> 4
                                  then update_last_instr
                                         (\<lambda>I. I\<lparr>instr_mask := BITFIELD_MASK components\<rparr>) ld
                                  else ld)))))
      else Inl (Unreachable ''todo: flat varyings''))"

text \<open>
  \<^verbatim>\<open>imm_index = 4 * base; imm_index += component; imm_index += offset\<close> on a 32-bit
  unsigned number; the last addition is taken in 64 bits and cut to 32.
\<close>

definition agx_emit_store_vary :: "agx_builder \<Rightarrow> nir_intrinsic_instr \<Rightarrow> error + agx_builder" where
  "agx_emit_store_vary b instr =
     (case nir_get_io_offset_src instr of
        None \<Rightarrow> Inl (Undefined_behaviour ''*offset'')
      | Some k \<Rightarrow>
          (let offset = intr_src instr k in
           if \<not> nir_src_is_const offset
             then Inl (Assert ''nir_src_is_const(*offset) && todo: indirects'')
           else
             (let imm_index0 :: 32 word = 4 * nir_intrinsic_base instr;
                  imm_index1 :: 32 word = imm_index0 + nir_intrinsic_component instr;
                  imm_index :: 32 word = ucast ((ucast imm_index1 :: 64 word) + nir_src_as_uint offset)
              in
              if nir_intrinsic_write_mask instr \<noteq> 1
                then Inl (Assert ''nir_intrinsic_write_mask(instr) == 0x1'')
              else Inr (agx_st_vary b (agx_immediate imm_index)
                          (agx_src_index (intr_src instr 0))))))"

definition agx_emit_fragment_out :: "agx_builder \<Rightarrow> nir_intrinsic_instr \<Rightarrow> error + agx_builder" where
  "agx_emit_fragment_out b instr =
     (case nir_find_variable_with_driver_location (nir (shader b)) nir_var_shader_out
             (nir_intrinsic_base instr) of
        None \<Rightarrow> Inl (Assert ''var'')
      | Some var \<Rightarrow>
          (let loc = location var in
           if var_index var \<noteq> 0
             then Inl (Assert ''var->data.index == 0 && todo: dual-source blending'')
           else if \<not> (loc = FRAG_RESULT_COLOR \<or> loc = FRAG_RESULT_DATA0)
             then Inl (Assert ''(loc == FRAG_RESULT_COLOR || loc == FRAG_RESULT_DATA0) && todo: MRT'')
           else
             (let rt = (if loc = FRAG_RESULT_COLOR then 0 else loc - FRAG_RESULT_DATA0);
                  b1 = agx_writeout b 0xC200;
                  b2 = agx_writeout b1 0x000C
              in
              case key (shader b2) of
                None \<Rightarrow> Inl (Undefined_behaviour ''b->shader->key'')
              | Some k \<Rightarrow>
                  Inr (agx_blend b2 (agx_src_index (intr_src instr 0)) (tib_formats k (unat rt))))))"

definition agx_emit_intrinsic :: "agx_builder \<Rightarrow> nir_intrinsic_instr \<Rightarrow> error + agx_builder" where
  "agx_emit_intrinsic b instr =
     (let dst = (if has_dest (nir_intrinsic_infos (intrinsic instr))
                   then agx_dest_index (intr_dest instr) else agx_null);
          stg = stage (shader b)
      in
      case intrinsic instr of
        nir_intrinsic_load_barycentric_pixel \<Rightarrow> Inr b
      | nir_intrinsic_load_barycentric_centroid \<Rightarrow> Inr b
      | nir_intrinsic_load_barycentric_sample \<Rightarrow> Inr b
      | nir_intrinsic_load_barycentric_at_sample \<Rightarrow> Inr b
      | nir_intrinsic_load_barycentric_at_offset \<Rightarrow> Inr b
      | nir_intrinsic_load_interpolated_input \<Rightarrow>
          (if stg = MESA_SHADER_FRAGMENT then agx_emit_load_vary b instr
           else if stg = MESA_SHADER_VERTEX then agx_emit_load_attr b instr
           else Inl (Unreachable ''Unsupported shader stage''))
      | nir_intrinsic_load_input \<Rightarrow>
          (if stg = MESA_SHADER_FRAGMENT then agx_emit_load_vary b instr
           else if stg = MESA_SHADER_VERTEX then agx_emit_load_attr b instr
           else Inl (Unreachable ''Unsupported shader stage''))
      | nir_intrinsic_store_output \<Rightarrow>
          (if stg = MESA_SHADER_FRAGMENT then agx_emit_fragment_out b instr
           else if stg = MESA_SHADER_VERTEX then agx_emit_store_vary b instr
           else Inl (Unreachable ''Unsupported shader stage''))
      | nir_intrinsic_other _ \<Rightarrow>
          Inl (Unhandled_intrinsic (info_name (nir_intrinsic_infos (intrinsic instr)))))"

definition agx_alu_src_index :: "agx_builder \<Rightarrow> nir_alu_src \<Rightarrow> error + agx_builder \<times> agx_index" where
  "agx_alu_src_index b s =
     (let bitsize = nir_src_bit_size (alu_src_src s);
          comps = nir_src_num_components (alu_src_src s);
          chan = swizzle s 0
      in
      if \<not> (bitsize = 16 \<or> bitsize = 32 \<or> bitsize = 64)
        then Inl (Assert ''bitsize == 16 || bitsize == 32 || bitsize == 64'')
      else if negate s \<or> src_abs s
        then Inl (Assert ''!(src.negate || src.abs)'')
      else if \<not> chan < comps
        then Inl (Assert ''channel < comps'')
      else
        (let idx = agx_src_index (alu_src_src s) in
         if comps > 1 then Inr (agx_p_extract b idx chan) else Inr (b, idx)))"

text \<open>\<^verbatim>\<open>srcs > i ? agx_alu_src_index(b, instr->src[i]) : agx_null()\<close>\<close>

definition alu_src_or_null ::
  "agx_builder \<Rightarrow> nir_alu_instr \<Rightarrow> nat \<Rightarrow> nat \<Rightarrow> error + agx_builder \<times> agx_index" where
  "alu_src_or_null b instr srcs i =
     (if srcs > i then agx_alu_src_index b (alu_src instr i) else Inr (b, agx_null))"

definition agx_emit_alu :: "agx_builder \<Rightarrow> nir_alu_instr \<Rightarrow> error + agx_builder" where
  "agx_emit_alu b instr =
     (let srcs = num_inputs (nir_op_infos (alu_op instr));
          sz = def_bit_size (alu_dest instr);
          src_sz = (if srcs \<noteq> 0 then nir_src_bit_size (alu_src_src (alu_src instr 0)) else 0);
          comps = def_num_components (alu_dest instr)
      in
      if \<not> (comps = 1 \<or> nir_op_is_vec (alu_op instr))
        then Inl (Assert ''comps == 1 || nir_op_is_vec(instr->op)'')
      else if \<not> (sz = 16 \<or> sz = 32 \<or> sz = 64)
        then Inl (Assert ''sz == 16 || sz == 32 || sz == 64'')
      else
        (let dst = agx_dest_index (alu_dest instr) in
         case alu_src_or_null b instr srcs 0 of Inl e \<Rightarrow> Inl e | Inr (b0, s0) \<Rightarrow>
         (case alu_src_or_null b0 instr srcs 1 of Inl e \<Rightarrow> Inl e | Inr (b1, s1) \<Rightarrow>
         (case alu_src_or_null b1 instr srcs 2 of Inl e \<Rightarrow> Inl e | Inr (b2, s2) \<Rightarrow>
         (case alu_src_or_null b2 instr srcs 3 of Inl e \<Rightarrow> Inl e | Inr (b3, s3) \<Rightarrow>
         (case alu_op instr of
            nir_op_vec2 \<Rightarrow> Inr (agx_p_combine_to b3 dst s0 s1 s2 s3)
          | nir_op_vec3 \<Rightarrow> Inr (agx_p_combine_to b3 dst s0 s1 s2 s3)
          | nir_op_vec4 \<Rightarrow> Inr (agx_p_combine_to b3 dst s0 s1 s2 s3)
          | nir_op_vec8 \<Rightarrow> Inl (Unreachable ''should have been lowered'')
          | nir_op_vec16 \<Rightarrow> Inl (Unreachable ''should have been lowered'')
          | nir_op_other _ \<Rightarrow>
              Inl (Unhandled_ALU_op (op_name (nir_op_infos (alu_op instr))))))))))"

definition agx_emit_tex :: "agx_builder \<Rightarrow> error + agx_builder" where
  "agx_emit_tex b = Inl (Unreachable ''stub'')"

definition agx_emit_jump :: "agx_builder \<Rightarrow> error + agx_builder" where
  "agx_emit_jump b = Inl (Unreachable ''stub'')"

definition agx_emit_instr :: "agx_builder \<Rightarrow> nir_instr \<Rightarrow> error + agx_builder" where
  "agx_emit_instr b instr =
     (case instr of
        nir_instr_type_load_const lc \<Rightarrow> agx_emit_load_const b lc
      | nir_instr_type_intrinsic intr \<Rightarrow> agx_emit_intrinsic b intr
      | nir_instr_type_alu alu \<Rightarrow> agx_emit_alu b alu
      | nir_instr_type_tex \<Rightarrow> agx_emit_tex b
      | nir_instr_type_jump \<Rightarrow> agx_emit_jump b
      | _ \<Rightarrow> Inl (Unreachable ''should have been lowered''))"

subsection \<open>Blocks and control flow\<close>

definition agx_create_block :: "agx_context \<Rightarrow> agx_block" where
  "agx_create_block ctx = \<lparr>name = 0, predecessors = [], instructions = []\<rparr>"

text \<open>\<^verbatim>\<open>nir_foreach_instr(instr, block) agx_emit_instr(&_b, instr)\<close>\<close>

fun emit_block_instrs :: "agx_builder \<Rightarrow> nir_instr list \<Rightarrow> error + agx_builder" where
  "emit_block_instrs b [] = Inr b"
| "emit_block_instrs b (instr # rest) =
     (case agx_emit_instr b instr of
        Inl e \<Rightarrow> Inl e
      | Inr b' \<Rightarrow> emit_block_instrs b' rest)"

text \<open>
  The new block goes to the end of the block list of the context; its identity is
  its position there. The builder inserts after the block.
\<close>

definition emit_block :: "agx_context \<Rightarrow> nir_instr list \<Rightarrow> error + agx_context \<times> nat" where
  "emit_block ctx block =
     (let blk = agx_create_block ctx;
          blk_id = length (blocks ctx);
          ctx1 = ctx\<lparr>blocks := blocks ctx @ [blk\<lparr>instructions := []\<rparr>]\<rparr>;
          b0 = agx_init_builder ctx1 blk_id
      in
      case emit_block_instrs b0 block of
        Inl e \<Rightarrow> Inl e
      | Inr b' \<Rightarrow> Inr (shader b', blk_id))"

definition emit_if :: "agx_context \<Rightarrow> error + agx_context" where
  "emit_if ctx = Inl (Unreachable ''if-statements todo'')"

definition emit_loop :: "agx_context \<Rightarrow> error + agx_context" where
  "emit_loop ctx = Inl (Unreachable ''loops todo'')"

text \<open>The loop of \<open>emit_cf_list\<close>, with the variable \<^verbatim>\<open>start_block\<close> as an argument.\<close>

fun emit_cf_list_from ::
  "agx_context \<Rightarrow> nat option \<Rightarrow> nir_cf_node list \<Rightarrow> error + agx_context \<times> nat option" where
  "emit_cf_list_from ctx start_block [] = Inr (ctx, start_block)"
| "emit_cf_list_from ctx start_block (node # rest) =
     (case node of
        nir_cf_node_block blk \<Rightarrow>
          (case emit_block ctx blk of
             Inl e \<Rightarrow> Inl e
           | Inr (ctx', block) \<Rightarrow>
               emit_cf_list_from ctx'
                 (if start_block = None then Some block else start_block) rest)
      | nir_cf_node_if \<Rightarrow>
          (case emit_if ctx of
             Inl e \<Rightarrow> Inl e
           | Inr ctx' \<Rightarrow> emit_cf_list_from ctx' start_block rest)
      | nir_cf_node_loop \<Rightarrow>
          (case emit_loop ctx of
             Inl e \<Rightarrow> Inl e
           | Inr ctx' \<Rightarrow> emit_cf_list_from ctx' start_block rest)
      | nir_cf_node_function \<Rightarrow> Inl (Unreachable ''Unknown control flow''))"

definition emit_cf_list :: "agx_context \<Rightarrow> nir_cf_node list \<Rightarrow> error + agx_context \<times> nat option" where
  "emit_cf_list ctx list = emit_cf_list_from ctx None list"

subsection \<open>The compilation driver\<close>

text \<open>
  \<^verbatim>\<open>nir_foreach_function\<close>: functions without an implementation are passed over, the
  first one with an implementation is translated, and the loop ends.
\<close>

fun emit_first_function :: "agx_context \<Rightarrow> nir_function list \<Rightarrow> error + agx_context" where
  "emit_first_function ctx [] = Inr ctx"
| "emit_first_function ctx (func # rest) =
     (case impl func of
        None \<Rightarrow> emit_first_function ctx rest
      | Some fi \<Rightarrow>
          (let ctx1 = ctx\<lparr>alloc := alloc ctx + ssa_alloc fi\<rparr> in
           case emit_cf_list ctx1 (body fi) of
             Inl e \<Rightarrow> Inl e
           | Inr (ctx2, _) \<Rightarrow> Inr ctx2))"

text \<open>\<^verbatim>\<open>agx_foreach_block(ctx, block) block->name = block_source_count++\<close>\<close>

fun name_blocks :: "nat \<Rightarrow> agx_block list \<Rightarrow> agx_block list" where
  "name_blocks block_source_count [] = []"
| "name_blocks block_source_count (block # rest) =
     block\<lparr>name := block_source_count\<rparr> # name_blocks (Suc block_source_count) rest"

text \<open>
  The end of \<open>agx_compile_shader_nir\<close>, from \<^verbatim>\<open>Terminate the shader after the exit block\<close>
  to the naming of the blocks. \<^verbatim>\<open>list_last_entry\<close> of a list without blocks is not a
  block.
\<close>

definition terminate_and_name :: "agx_context \<Rightarrow> error + agx_context" where
  "terminate_and_name ctx =
     (if blocks ctx = [] then Inl (Undefined_behaviour ''list_last_entry of an empty list'')
      else
        (let last_block = length (blocks ctx) - 1;
             b0 = agx_init_builder ctx last_block;
             b1 = agx_stop b0;
             b2 = (agx_trap ^^ 8) b1;
             ctx' = shader b2
         in Inr (ctx'\<lparr>blocks := name_blocks 0 (blocks ctx')\<rparr>)))"

text \<open>
  The driver up to the call of the register allocator. The lowering and optimisation
  passes of NIR are outside the sources at hand: \<open>passes\<close> stands for their effect on
  the shader. The context is zeroed when it is made, so its key is null.
\<close>

definition agx_compile_shader_nir :: "(nir_shader \<Rightarrow> nir_shader) \<Rightarrow> nir_shader \<Rightarrow> error + agx_context" where
  "agx_compile_shader_nir passes nir0 =
     (let ctx = \<lparr>nir = passes nir0, stage = info_stage nir0, key = None, blocks = [], alloc = 0\<rparr>
      in
      case emit_first_function ctx (shader_functions (passes nir0)) of
        Inl e \<Rightarrow> Inl e
      | Inr ctx1 \<Rightarrow> terminate_and_name ctx1)"

text \<open>
  The three assertions of \<open>agx_alu_src_index\<close> (\<^verbatim>\<open>Check well-formedness of the input NIR\<close>)
  as a predicate on the source operand.
\<close>

definition alu_src_well_formed :: "nir_alu_src \<Rightarrow> bool" where
  "alu_src_well_formed s =
     ((nir_src_bit_size (alu_src_src s) = 16 \<or> nir_src_bit_size (alu_src_src s) = 32 \<or>
       nir_src_bit_size (alu_src_src s) = 64) \<and>
      \<not> (negate s \<or> src_abs s) \<and>
      swizzle s 0 < nir_src_num_components (alu_src_src s))"

text \<open>
  The instructions of the legalized programs of the specification (constant loads,
  vector packs, and supported input and output intrinsics), as conditions on the
  instruction and on the stage, the shader and the key of the context: a constant load
  of one component and 16 or 32 bits; a 2-, 3- or 4-way vector pack of a legal width
  with well-formed operands; a barycentric load; in the fragment stage, a load of an
  input interpolated at the pixel with a constant offset, and a store to an output
  variable of dual-source index 0 at the colour or first data location, with a key; in
  the vertex stage, an output store with a constant offset and write mask 1.
\<close>

definition supported :: "agx_context \<Rightarrow> nir_instr \<Rightarrow> bool" where
  "supported ctx instr =
     (case instr of
        nir_instr_type_load_const lc \<Rightarrow>
          def_num_components (const_def lc) = 1 \<and>
          (def_bit_size (const_def lc) = 16 \<or> def_bit_size (const_def lc) = 32)
      | nir_instr_type_alu a \<Rightarrow>
          alu_op a \<in> {nir_op_vec2, nir_op_vec3, nir_op_vec4} \<and>
          def_bit_size (alu_dest a) \<in> {16, 32, 64} \<and>
          (\<forall>i < num_inputs (nir_op_infos (alu_op a)). alu_src_well_formed (alu_src a i))
      | nir_instr_type_intrinsic i \<Rightarrow>
          intrinsic i \<in> {nir_intrinsic_load_barycentric_pixel,
            nir_intrinsic_load_barycentric_centroid, nir_intrinsic_load_barycentric_sample,
            nir_intrinsic_load_barycentric_at_sample, nir_intrinsic_load_barycentric_at_offset} \<or>
          (intrinsic i = nir_intrinsic_load_interpolated_input \<and>
           stage ctx = MESA_SHADER_FRAGMENT \<and>
           parent_instr (intr_src i 0) = parent_intrinsic nir_intrinsic_load_barycentric_pixel \<and>
           nir_src_is_const (intr_src i 1)) \<or>
          (intrinsic i = nir_intrinsic_store_output \<and> stage ctx = MESA_SHADER_VERTEX \<and>
           nir_src_is_const (intr_src i 1) \<and> nir_intrinsic_write_mask i = 1) \<or>
          (intrinsic i = nir_intrinsic_store_output \<and> stage ctx = MESA_SHADER_FRAGMENT \<and>
           key ctx \<noteq> None \<and>
           (case nir_find_variable_with_driver_location (nir ctx) nir_var_shader_out
                   (nir_intrinsic_base i) of
              None \<Rightarrow> False
            | Some var \<Rightarrow>
                var_index var = 0 \<and>
                (location var = FRAG_RESULT_COLOR \<or> location var = FRAG_RESULT_DATA0)))
      | _ \<Rightarrow> False)"

subsection \<open>Describing builder states\<close>

text \<open>
  The two ways in which the selector changes a builder: it takes registers from the
  counter of the context, and it inserts instructions at the cursor, one after the other.
\<close>

definition bump_alloc :: "nat \<Rightarrow> agx_builder \<Rightarrow> agx_builder" where
  "bump_alloc n b = b\<lparr>shader := (shader b)\<lparr>alloc := alloc (shader b) + n\<rparr>\<rparr>"

definition insert_all :: "agx_builder \<Rightarrow> agx_instr list \<Rightarrow> agx_builder" where
  "insert_all b Is = foldl agx_builder_insert b Is"

subsection \<open>Concrete inputs\<close>

text \<open>
  A key, a shader with three output variables (driver location 0: the first data
  output; 1: the colour output with dual-source index 1; 2: the second data output),
  a builder on a context with one empty block, and instructions to run the selector on.
\<close>

definition example_key :: agx_shader_key where
  "example_key = \<lparr>tib_formats = (\<lambda>rt. 10 + rt)\<rparr>"

definition example_shader :: nir_shader where
  "example_shader =
     \<lparr>info_stage = MESA_SHADER_FRAGMENT,
      variables =
        [\<lparr>var_mode = nir_var_shader_out, driver_location = 0,
          location = FRAG_RESULT_DATA0, var_index = 0\<rparr>,
         \<lparr>var_mode = nir_var_shader_out, driver_location = 1,
          location = FRAG_RESULT_COLOR, var_index = 1\<rparr>,
         \<lparr>var_mode = nir_var_shader_out, driver_location = 2,
          location = FRAG_RESULT_DATA0 + 1, var_index = 0\<rparr>],
      shader_functions = []\<rparr>"

definition example_context :: "gl_shader_stage \<Rightarrow> agx_context" where
  "example_context stg =
     \<lparr>nir = example_shader, stage = stg, key = Some example_key,
      blocks = [\<lparr>name = 0, predecessors = [], instructions = []\<rparr>], alloc = 7\<rparr>"

definition example_builder :: "gl_shader_stage \<Rightarrow> agx_builder" where
  "example_builder stg = \<lparr>shader = example_context stg, cursor = 0\<rparr>"

definition example_load_const :: "nat \<Rightarrow> nat \<Rightarrow> nir_load_const_instr" where
  "example_load_const comps bits =
     \<lparr>const_def = \<lparr>def_index = 3, def_num_components = comps, def_bit_size = bits\<rparr>,
      const_value = (\<lambda>_. 0x12345)\<rparr>"

definition example_src :: "nat \<Rightarrow> nat \<Rightarrow> nir_parent_instr \<Rightarrow> nir_src" where
  "example_src i comps p =
     \<lparr>ssa = \<lparr>def_index = i, def_num_components = comps, def_bit_size = 32\<rparr>, parent_instr = p\<rparr>"

text \<open>
  An intrinsic with base \<open>bs\<close>, component 2, write mask 1 and two components, whose
  first operand is \<open>s0\<close> and whose other operands are the constant 3.
\<close>

definition example_intrinsic :: "nir_intrinsic_op \<Rightarrow> 32 word \<Rightarrow> nir_src \<Rightarrow> nir_intrinsic_instr" where
  "example_intrinsic opc bs s0 =
     \<lparr>intrinsic = opc,
      intr_dest = \<lparr>def_index = 5, def_num_components = 2, def_bit_size = 32\<rparr>,
      intr_num_components = 2,
      intr_src = (\<lambda>i. if i = 0 then s0 else example_src 2 1 (parent_load_const 3)),
      nir_intrinsic_base = bs,
      nir_intrinsic_component = 2,
      nir_intrinsic_write_mask = 1\<rparr>"

definition example_barycentric :: nir_src where
  "example_barycentric = example_src 1 2 (parent_intrinsic nir_intrinsic_load_barycentric_pixel)"

text \<open>
  An ALU instruction with a three-component 32-bit destination whose operand 1 is
  channel 2 of a four-component value and whose other operands are scalars.
\<close>

definition example_alu_src :: "nat \<Rightarrow> nat \<Rightarrow> nir_alu_src" where
  "example_alu_src i comps =
     \<lparr>alu_src_src = example_src i comps parent_other, negate = False, src_abs = False,
      swizzle = (\<lambda>_. if comps > 1 then 2 else 0)\<rparr>"

definition example_alu :: "nir_op \<Rightarrow> nir_alu_instr" where
  "example_alu opc =
     \<lparr>alu_op = opc,
      alu_dest = \<lparr>def_index = 9, def_num_components = 3, def_bit_size = 32\<rparr>,
      alu_src = (\<lambda>i. example_alu_src (20 + i) (if i = 1 then 4 else 1))\<rparr>"

text \<open>
  A shader whose first function has no implementation and whose second function is two
  blocks: one with a constant load, one empty.
\<close>

definition example_program :: nir_shader where
  "example_program =
     \<lparr>info_stage = MESA_SHADER_FRAGMENT, variables = [],
      shader_functions =
        [\<lparr>impl = None\<rparr>,
         \<lparr>impl = Some \<lparr>ssa_alloc = 4,
                       body = [nir_cf_node_block
                                 [nir_instr_type_load_const (example_load_const 1 32)],
                               nir_cf_node_block []]\<rparr>\<rparr>]\<rparr>"

section \<open>Properties\<close>

subsection \<open>Inserting at the cursor\<close>

lemma cursor_instructions_insert:
  "cursor b < length (blocks (shader b)) \<Longrightarrow>
   cursor_instructions (agx_builder_insert b I) = cursor_instructions b @ [I]"
  by (simp add: cursor_instructions_def agx_builder_insert_def update_cursor_block_def)

lemma cursor_insert [simp]: "cursor (agx_builder_insert b I) = cursor b"
  by (simp add: agx_builder_insert_def update_cursor_block_def)

lemma length_blocks_insert [simp]:
  "length (blocks (shader (agx_builder_insert b I))) = length (blocks (shader b))"
  by (simp add: agx_builder_insert_def update_cursor_block_def)

lemma update_last_instr_insert:
  "update_last_instr f (agx_builder_insert b I) = agx_builder_insert b (f I)"
  by (cases "cursor b < length (blocks (shader b))")
     (simp_all add: update_last_instr_def agx_builder_insert_def update_cursor_block_def
        list_update_beyond)

subsection \<open>Arithmetic of the immediate indices and of the write mask\<close>

lemma BITFIELD_MASK_low: "c < 32 \<Longrightarrow> BITFIELD_MASK c = mask c"
  by (simp add: BITFIELD_MASK_def mask_eq_exp_minus_1)

lemma BITFIELD_MASK_bits:
  "c < 4 \<Longrightarrow> BITFIELD_MASK c = 2 ^ c - 1 \<and> (\<forall>n. bit (BITFIELD_MASK c) n \<longleftrightarrow> n < c)"
proof -
  assume c: "c < 4"
  then have e: "BITFIELD_MASK c = mask c" by (simp add: BITFIELD_MASK_low)
  have "\<And>n. bit (mask c :: 32 word) n \<longleftrightarrow> n < c"
    using c by (auto simp: bit_simps)
  with e show ?thesis by (simp add: mask_eq_exp_minus_1)
qed

text \<open>Cutting a 64-bit sum to 32 bits is adding the cut summands.\<close>

lemma ucast_64_32_add: "(ucast (x + y :: 64 word) :: 32 word) = ucast x + ucast y"
proof -
  have "take_bit 32 (uint (x + y)) = take_bit 32 (uint x + uint y)"
    by (simp add: uint_word_ariths take_bit_eq_mod mod_mod_cancel le_imp_power_dvd)
  then have "(word_of_int (uint (x + y)) :: 32 word) = word_of_int (uint x + uint y)"
    by (subst word_of_int_eq_iff) simp
  also have "\<dots> = word_of_int (uint x) + word_of_int (uint y)"
    by (rule of_int_add)
  finally show ?thesis
    by (simp only: ucast_eq)
qed

lemma ucast_scast_32: "(ucast (scast (b :: 32 word) :: 64 word) :: 32 word) = b"
  by (rule bit_word_eqI) (auto simp: bit_simps)

lemma ucast_ucast_32: "(ucast (ucast (b :: 32 word) :: 64 word) :: 32 word) = b"
  by (rule bit_word_eqI) (auto simp: bit_simps)

lemma imm_index_store:
  "(ucast ((ucast (b :: 32 word) :: 64 word) + off) :: 32 word) = b + ucast off"
  by (simp add: ucast_64_32_add ucast_ucast_32)

lemma imm_index_load:
  "(ucast ((scast (b :: 32 word) :: 64 word) + off) :: 32 word) = b + ucast off"
  by (simp add: ucast_64_32_add ucast_scast_32)

lemma unat_store_index:
  "unat (4 * b + c + ucast (off :: 64 word) :: 32 word) =
     (4 * unat b + unat c + unat off) mod 2 ^ 32"
  by (simp add: unat_word_ariths unsigned_ucast_eq take_bit_eq_mod mod_simps)

lemma unat_load_index:
  "unat (b + ucast (off :: 64 word) :: 32 word) = (unat b + unat off) mod 2 ^ 32"
  by (simp add: unat_word_ariths unsigned_ucast_eq take_bit_eq_mod mod_simps)

subsection \<open>Constant loads\<close>

text \<open>
  Claim C5. A constant load of one component and of bit width 16 or 32 appends one
  move-immediate whose immediate is the constant read at that width and whose
  destination is the register of the defined value; a constant load of width 64 or of
  more than one component ends in an error.
\<close>

theorem agx_emit_load_const_mov_imm:
  "(def_num_components (const_def instr) = 1 \<and>
    (def_bit_size (const_def instr) = 16 \<or> def_bit_size (const_def instr) = 32) \<longrightarrow>
      (\<exists>I. agx_emit_load_const b instr = Inr (agx_builder_insert b I) \<and>
           agx_emit_instr b (nir_instr_type_load_const instr) = Inr (agx_builder_insert b I) \<and>
           op I = AGX_OPCODE_MOV_IMM \<and>
           dest I = agx_get_index (def_index (const_def instr)) (def_bit_size (const_def instr)) \<and>
           src I = [] \<and>
           imm I = take_bit (def_bit_size (const_def instr)) (const_value instr 0) \<and>
           (cursor b < length (blocks (shader b)) \<longrightarrow>
              cursor_instructions (agx_builder_insert b I) = cursor_instructions b @ [I]))) \<and>
   (def_bit_size (const_def instr) = 64 \<or> def_num_components (const_def instr) > 1 \<longrightarrow>
      (\<exists>e. agx_emit_load_const b instr = Inl e \<and>
           agx_emit_instr b (nir_instr_type_load_const instr) = Inl e))"
  by (auto simp: agx_emit_instr_def agx_emit_load_const_def agx_mov_imm_to_def agx_alloc_instr_def
      nir_const_value_as_uint_def agx_size_for_bits_def cursor_instructions_insert)

theorem agx_emit_load_const_mov_imm_witness:
  "def_num_components (const_def (example_load_const 1 16)) = 1 \<and>
   def_bit_size (const_def (example_load_const 1 16)) = 16 \<and>
   (\<exists>I. agx_emit_load_const (example_builder MESA_SHADER_FRAGMENT) (example_load_const 1 16) =
          Inr (agx_builder_insert (example_builder MESA_SHADER_FRAGMENT) I) \<and>
        op I = AGX_OPCODE_MOV_IMM \<and> dest I = agx_get_index 3 16 \<and> imm I = 0x2345) \<and>
   def_bit_size (const_def (example_load_const 1 64)) = 64 \<and>
   (\<exists>e. agx_emit_load_const (example_builder MESA_SHADER_FRAGMENT) (example_load_const 1 64) = Inl e) \<and>
   def_num_components (const_def (example_load_const 2 32)) > 1 \<and>
   (\<exists>e. agx_emit_load_const (example_builder MESA_SHADER_FRAGMENT) (example_load_const 2 32) = Inl e)"
proof -
  let ?b = "example_builder MESA_SHADER_FRAGMENT"
  have h1: "def_num_components (const_def (example_load_const 1 16)) = 1"
    "def_bit_size (const_def (example_load_const 1 16)) = 16"
    "def_index (const_def (example_load_const 1 16)) = 3"
    "take_bit 16 (const_value (example_load_const 1 16) 0) = 0x2345"
    by (simp_all add: example_load_const_def)
  have h2: "def_bit_size (const_def (example_load_const 1 64)) = 64"
    and h3: "def_num_components (const_def (example_load_const 2 32)) > 1"
    by (simp_all add: example_load_const_def)
  from agx_emit_load_const_mov_imm [of "example_load_const 1 16" ?b] h1
  have c1: "\<exists>I. agx_emit_load_const ?b (example_load_const 1 16) = Inr (agx_builder_insert ?b I) \<and>
        op I = AGX_OPCODE_MOV_IMM \<and> dest I = agx_get_index 3 16 \<and> imm I = 0x2345"
    by (simp only:) blast
  from agx_emit_load_const_mov_imm [of "example_load_const 1 64" ?b] h2
  have c2: "\<exists>e. agx_emit_load_const ?b (example_load_const 1 64) = Inl e" by blast
  from agx_emit_load_const_mov_imm [of "example_load_const 2 32" ?b] h3
  have c3: "\<exists>e. agx_emit_load_const ?b (example_load_const 2 32) = Inl e" by blast
  from h1 h2 h3 c1 c2 c3 show ?thesis by blast
qed

subsection \<open>Intrinsics\<close>

text \<open>
  Claim C10. Selecting one of the five barycentric-coordinate intrinsics succeeds and
  returns the builder as it was: nothing is appended to the block of the cursor (the
  coordinates are consumed later, by the load of the interpolated input).
\<close>

theorem agx_emit_intrinsic_barycentric_skipped:
  "intrinsic instr \<in> {nir_intrinsic_load_barycentric_pixel, nir_intrinsic_load_barycentric_centroid,
       nir_intrinsic_load_barycentric_sample, nir_intrinsic_load_barycentric_at_sample,
       nir_intrinsic_load_barycentric_at_offset} \<Longrightarrow>
   agx_emit_intrinsic b instr = Inr b \<and> agx_emit_instr b (nir_instr_type_intrinsic instr) = Inr b"
  by (auto simp: agx_emit_intrinsic_def agx_emit_instr_def)

theorem agx_emit_intrinsic_barycentric_skipped_witness:
  "intrinsic (example_intrinsic nir_intrinsic_load_barycentric_centroid 0 example_barycentric) =
     nir_intrinsic_load_barycentric_centroid \<and>
   agx_emit_intrinsic (example_builder MESA_SHADER_FRAGMENT)
     (example_intrinsic nir_intrinsic_load_barycentric_centroid 0 example_barycentric) =
     Inr (example_builder MESA_SHADER_FRAGMENT) \<and>
   cursor_instructions (example_builder MESA_SHADER_FRAGMENT) = []"
proof -
  let ?i = "example_intrinsic nir_intrinsic_load_barycentric_centroid 0 example_barycentric"
  have h: "intrinsic ?i = nir_intrinsic_load_barycentric_centroid"
    by (simp add: example_intrinsic_def)
  have e: "cursor_instructions (example_builder MESA_SHADER_FRAGMENT) = []"
    by (simp add: cursor_instructions_def example_builder_def example_context_def)
  from agx_emit_intrinsic_barycentric_skipped [of ?i "example_builder MESA_SHADER_FRAGMENT"] h e
  show ?thesis by simp
qed

text \<open>
  Claim C2, as stated, fails: the pixel barycentric load is none of the input loads and
  output stores, and selecting it neither fails nor emits anything.
\<close>

theorem agx_emit_intrinsic_barycentric_not_fatal:
  "intrinsic (example_intrinsic nir_intrinsic_load_barycentric_pixel 0 example_barycentric)
     \<noteq> nir_intrinsic_load_interpolated_input \<and>
   intrinsic (example_intrinsic nir_intrinsic_load_barycentric_pixel 0 example_barycentric)
     \<noteq> nir_intrinsic_load_input \<and>
   intrinsic (example_intrinsic nir_intrinsic_load_barycentric_pixel 0 example_barycentric)
     \<noteq> nir_intrinsic_store_output \<and>
   agx_emit_intrinsic (example_builder MESA_SHADER_FRAGMENT)
     (example_intrinsic nir_intrinsic_load_barycentric_pixel 0 example_barycentric) =
     Inr (example_builder MESA_SHADER_FRAGMENT)"
  by (simp add: agx_emit_intrinsic_def example_intrinsic_def)

text \<open>What a successful selection of an input load or an output store appends.\<close>

lemma agx_emit_load_vary_inserts:
  "agx_emit_load_vary b instr = Inr b' \<Longrightarrow> \<exists>I. b' = agx_builder_insert b I"
  by (auto simp: agx_emit_load_vary_def agx_ld_vary_to_def update_last_instr_insert Let_def
      split: if_splits option.splits)

lemma agx_emit_store_vary_inserts:
  "agx_emit_store_vary b instr = Inr b' \<Longrightarrow> \<exists>I. b' = agx_builder_insert b I"
  by (auto simp: agx_emit_store_vary_def agx_st_vary_def Let_def
      split: if_splits option.splits)

lemma agx_emit_fragment_out_inserts:
  "agx_emit_fragment_out b instr = Inr b' \<Longrightarrow>
   \<exists>I1 I2 I3. b' = agx_builder_insert (agx_builder_insert (agx_builder_insert b I1) I2) I3"
  by (auto simp: agx_emit_fragment_out_def agx_writeout_def agx_blend_def Let_def
      split: if_splits option.splits)

text \<open>
  Claim C2, amended. An intrinsic that is neither an input load, nor the output store,
  nor one of the five barycentric loads ends the compilation with the diagnostic that
  names it. Apart from the five barycentric loads, an intrinsic whose selection succeeds
  has appended at least one instruction to the block of the cursor.
\<close>

theorem agx_emit_intrinsic_unhandled:
  "(intrinsic instr \<notin> {nir_intrinsic_load_barycentric_pixel, nir_intrinsic_load_barycentric_centroid,
       nir_intrinsic_load_barycentric_sample, nir_intrinsic_load_barycentric_at_sample,
       nir_intrinsic_load_barycentric_at_offset, nir_intrinsic_load_interpolated_input,
       nir_intrinsic_load_input, nir_intrinsic_store_output} \<longrightarrow>
     agx_emit_intrinsic b instr =
       Inl (Unhandled_intrinsic (info_name (nir_intrinsic_infos (intrinsic instr))))) \<and>
   (intrinsic instr \<notin> {nir_intrinsic_load_barycentric_pixel, nir_intrinsic_load_barycentric_centroid,
       nir_intrinsic_load_barycentric_sample, nir_intrinsic_load_barycentric_at_sample,
       nir_intrinsic_load_barycentric_at_offset} \<and>
    cursor b < length (blocks (shader b)) \<and> agx_emit_intrinsic b instr = Inr b' \<longrightarrow>
     length (cursor_instructions b) < length (cursor_instructions b'))"
proof (intro conjI impI)
  assume "intrinsic instr \<notin> {nir_intrinsic_load_barycentric_pixel, nir_intrinsic_load_barycentric_centroid,
       nir_intrinsic_load_barycentric_sample, nir_intrinsic_load_barycentric_at_sample,
       nir_intrinsic_load_barycentric_at_offset, nir_intrinsic_load_interpolated_input,
       nir_intrinsic_load_input, nir_intrinsic_store_output}"
  then show "agx_emit_intrinsic b instr =
       Inl (Unhandled_intrinsic (info_name (nir_intrinsic_infos (intrinsic instr))))"
    by (cases "intrinsic instr") (simp_all add: agx_emit_intrinsic_def)
next
  assume h: "intrinsic instr \<notin> {nir_intrinsic_load_barycentric_pixel, nir_intrinsic_load_barycentric_centroid,
       nir_intrinsic_load_barycentric_sample, nir_intrinsic_load_barycentric_at_sample,
       nir_intrinsic_load_barycentric_at_offset} \<and>
    cursor b < length (blocks (shader b)) \<and> agx_emit_intrinsic b instr = Inr b'"
  then have c: "cursor b < length (blocks (shader b))" by simp
  from h consider
      (one) I where "b' = agx_builder_insert b I"
    | (three) I1 I2 I3 where
        "b' = agx_builder_insert (agx_builder_insert (agx_builder_insert b I1) I2) I3"
    by (cases "intrinsic instr")
       (auto simp: agx_emit_intrinsic_def agx_emit_load_attr_def Let_def split: if_splits
          dest: agx_emit_load_vary_inserts agx_emit_store_vary_inserts
                agx_emit_fragment_out_inserts)
  then show "length (cursor_instructions b) < length (cursor_instructions b')"
  proof cases
    case one
    with c show ?thesis by (simp add: cursor_instructions_insert)
  next
    case three
    with c show ?thesis by (simp add: cursor_instructions_insert)
  qed
qed

theorem agx_emit_intrinsic_unhandled_witness:
  "agx_emit_intrinsic (example_builder MESA_SHADER_FRAGMENT)
     (example_intrinsic (nir_intrinsic_other \<lparr>info_name = ''load_ubo'', has_dest = True\<rparr>) 0
        example_barycentric) = Inl (Unhandled_intrinsic ''load_ubo'') \<and>
   (\<exists>b'. agx_emit_intrinsic (example_builder MESA_SHADER_VERTEX)
           (example_intrinsic nir_intrinsic_store_output 1 example_barycentric) = Inr b' \<and>
         length (cursor_instructions (example_builder MESA_SHADER_VERTEX)) <
           length (cursor_instructions b'))"
proof -
  let ?u = "example_intrinsic (nir_intrinsic_other \<lparr>info_name = ''load_ubo'', has_dest = True\<rparr>) 0
              example_barycentric"
  let ?s = "example_intrinsic nir_intrinsic_store_output 1 example_barycentric"
  let ?bv = "example_builder MESA_SHADER_VERTEX"
  have u: "intrinsic ?u = nir_intrinsic_other \<lparr>info_name = ''load_ubo'', has_dest = True\<rparr>"
    by (simp add: example_intrinsic_def)
  have "agx_emit_intrinsic (example_builder MESA_SHADER_FRAGMENT) ?u =
          Inl (Unhandled_intrinsic (info_name (nir_intrinsic_infos (intrinsic ?u))))"
    using agx_emit_intrinsic_unhandled [of ?u "example_builder MESA_SHADER_FRAGMENT"] u by simp
  then have first: "agx_emit_intrinsic (example_builder MESA_SHADER_FRAGMENT) ?u =
          Inl (Unhandled_intrinsic ''load_ubo'')"
    by (simp add: u nir_intrinsic_infos_def)
  have s: "intrinsic ?s = nir_intrinsic_store_output" "cursor ?bv < length (blocks (shader ?bv))"
    by (simp_all add: example_intrinsic_def example_builder_def example_context_def)
  have "\<exists>b'. agx_emit_intrinsic ?bv ?s = Inr b'"
    by (simp add: agx_emit_intrinsic_def agx_emit_store_vary_def nir_get_io_offset_src_def
        nir_src_is_const_def example_intrinsic_def example_builder_def example_context_def
        example_src_def)
  then obtain b' where r: "agx_emit_intrinsic ?bv ?s = Inr b'" ..
  from agx_emit_intrinsic_unhandled [of ?s ?bv b'] s r
  have "length (cursor_instructions ?bv) < length (cursor_instructions b')" by simp
  with r first show ?thesis by blast
qed

subsection \<open>Varyings\<close>

text \<open>
  Claim C4. In the vertex stage, an output store with a constant offset \<open>off\<close> and
  write mask 1 appends one store-varying instruction whose first source is the
  immediate \<open>4 * base + component + off\<close>, computed on 32-bit unsigned numbers (the
  sum modulo \<open>2 ^ 32\<close>), and whose second source is the stored value; with any other
  write mask the selection ends in an error.
\<close>

theorem agx_emit_store_vary_index:
  assumes "stage (shader b) = MESA_SHADER_VERTEX"
    and "intrinsic instr = nir_intrinsic_store_output"
  shows "(parent_instr (intr_src instr 1) = parent_load_const off \<and>
          nir_intrinsic_write_mask instr = 1 \<longrightarrow>
            (\<exists>I. agx_emit_intrinsic b instr = Inr (agx_builder_insert b I) \<and>
                 op I = AGX_OPCODE_ST_VARY \<and>
                 src I = [agx_immediate (4 * nir_intrinsic_base instr + nir_intrinsic_component instr
                                           + ucast off),
                          agx_src_index (intr_src instr 0)] \<and>
                 unat (4 * nir_intrinsic_base instr + nir_intrinsic_component instr + ucast off) =
                   (4 * unat (nir_intrinsic_base instr) + unat (nir_intrinsic_component instr)
                      + unat off) mod 2 ^ 32 \<and>
                 (cursor b < length (blocks (shader b)) \<longrightarrow>
                    cursor_instructions (agx_builder_insert b I) = cursor_instructions b @ [I]))) \<and>
         (nir_intrinsic_write_mask instr \<noteq> 1 \<longrightarrow> (\<exists>e. agx_emit_intrinsic b instr = Inl e))"
  using assms
  by (auto simp: agx_emit_intrinsic_def agx_emit_store_vary_def nir_get_io_offset_src_def
      nir_src_is_const_def nir_src_as_uint_def agx_st_vary_def agx_alloc_instr_def
      imm_index_store unat_store_index cursor_instructions_insert Let_def
      split: nir_parent_instr.splits)

theorem agx_emit_store_vary_index_witness:
  "stage (shader (example_builder MESA_SHADER_VERTEX)) = MESA_SHADER_VERTEX \<and>
   intrinsic (example_intrinsic nir_intrinsic_store_output 1 example_barycentric) =
     nir_intrinsic_store_output \<and>
   (\<exists>I. agx_emit_intrinsic (example_builder MESA_SHADER_VERTEX)
          (example_intrinsic nir_intrinsic_store_output 1 example_barycentric) =
          Inr (agx_builder_insert (example_builder MESA_SHADER_VERTEX) I) \<and>
        op I = AGX_OPCODE_ST_VARY \<and>
        src I = [agx_immediate 9, agx_get_index 1 32]) \<and>
   nir_intrinsic_write_mask
     ((example_intrinsic nir_intrinsic_store_output 1 example_barycentric)
        \<lparr>nir_intrinsic_write_mask := 3\<rparr>) = 3 \<and>
   (\<exists>e. agx_emit_intrinsic (example_builder MESA_SHADER_VERTEX)
          ((example_intrinsic nir_intrinsic_store_output 1 example_barycentric)
             \<lparr>nir_intrinsic_write_mask := 3\<rparr>) = Inl e)"
proof -
  let ?b = "example_builder MESA_SHADER_VERTEX"
  let ?s = "example_intrinsic nir_intrinsic_store_output 1 example_barycentric"
  let ?t = "?s\<lparr>nir_intrinsic_write_mask := 3\<rparr>"
  have st: "stage (shader ?b) = MESA_SHADER_VERTEX"
    by (simp add: example_builder_def example_context_def)
  have s: "intrinsic ?s = nir_intrinsic_store_output"
    "parent_instr (intr_src ?s 1) = parent_load_const 3"
    "nir_intrinsic_write_mask ?s = 1"
    "4 * nir_intrinsic_base ?s + nir_intrinsic_component ?s + ucast (3 :: 64 word) = 9"
    "agx_src_index (intr_src ?s 0) = agx_get_index 1 32"
    by (simp_all add: example_intrinsic_def example_src_def example_barycentric_def
        agx_src_index_def agx_size_for_bits_def nir_src_bit_size_def)
  have t: "intrinsic ?t = nir_intrinsic_store_output" "nir_intrinsic_write_mask ?t = 3"
    by (simp_all add: example_intrinsic_def)
  from agx_emit_store_vary_index [OF st s(1), of 3] s
  have c1: "\<exists>I. agx_emit_intrinsic ?b ?s = Inr (agx_builder_insert ?b I) \<and>
        op I = AGX_OPCODE_ST_VARY \<and> src I = [agx_immediate 9, agx_get_index 1 32]"
    by (simp only:) blast
  from agx_emit_store_vary_index [OF st t(1), of 3] t(2)
  have c2: "\<exists>e. agx_emit_intrinsic ?b ?t = Inl e" by simp
  from st s(1) t(2) c1 c2 show ?thesis by blast
qed

text \<open>
  Claim C3. In the fragment stage, a load of an interpolated input whose barycentric
  operand is the pixel barycentric and whose offset is the constant \<open>off\<close> appends one
  load-varying instruction whose source is the immediate \<open>base + off\<close>, computed on
  32-bit unsigned numbers; when fewer than four components are requested its write mask
  is \<open>2 ^ c - 1\<close>, that is bit \<open>n\<close> is set exactly for \<open>n < c\<close>. A dynamic offset, another
  barycentric operand and the flat load all end in an error.
\<close>

theorem agx_emit_load_vary_index:
  assumes "stage (shader b) = MESA_SHADER_FRAGMENT"
  shows "(intrinsic instr = nir_intrinsic_load_interpolated_input \<and>
          parent_instr (intr_src instr 0) = parent_intrinsic nir_intrinsic_load_barycentric_pixel \<and>
          parent_instr (intr_src instr 1) = parent_load_const off \<longrightarrow>
            (\<exists>I. agx_emit_intrinsic b instr = Inr (agx_builder_insert b I) \<and>
                 op I = AGX_OPCODE_LD_VARY \<and>
                 dest I = agx_dest_index (intr_dest instr) \<and>
                 src I = [agx_immediate (nir_intrinsic_base instr + ucast off)] \<and>
                 unat (nir_intrinsic_base instr + ucast off) =
                   (unat (nir_intrinsic_base instr) + unat off) mod 2 ^ 32 \<and>
                 (intr_num_components instr < 4 \<longrightarrow>
                    instr_mask I = 2 ^ intr_num_components instr - 1 \<and>
                    (\<forall>n. bit (instr_mask I) n \<longleftrightarrow> n < intr_num_components instr)) \<and>
                 (cursor b < length (blocks (shader b)) \<longrightarrow>
                    cursor_instructions (agx_builder_insert b I) = cursor_instructions b @ [I]))) \<and>
         (intrinsic instr = nir_intrinsic_load_interpolated_input \<and>
          \<not> nir_src_is_const (intr_src instr 1) \<longrightarrow>
            (\<exists>e. agx_emit_intrinsic b instr = Inl e)) \<and>
         (intrinsic instr = nir_intrinsic_load_interpolated_input \<and>
          parent_instr (intr_src instr 0) \<noteq> parent_intrinsic nir_intrinsic_load_barycentric_pixel \<longrightarrow>
            (\<exists>e. agx_emit_intrinsic b instr = Inl e)) \<and>
         (intrinsic instr = nir_intrinsic_load_input \<longrightarrow>
            agx_emit_intrinsic b instr = Inl (Unreachable ''todo: flat varyings''))"
proof (intro conjI impI)
  assume h: "intrinsic instr = nir_intrinsic_load_interpolated_input \<and>
          parent_instr (intr_src instr 0) = parent_intrinsic nir_intrinsic_load_barycentric_pixel \<and>
          parent_instr (intr_src instr 1) = parent_load_const off"
  let ?c = "intr_num_components instr"
  let ?I0 = "(agx_alloc_instr AGX_OPCODE_LD_VARY)
               \<lparr>dest := agx_dest_index (intr_dest instr),
                src := [agx_immediate (nir_intrinsic_base instr + ucast off)]\<rparr>"
  let ?I = "if ?c \<noteq> 4 then ?I0\<lparr>instr_mask := BITFIELD_MASK ?c\<rparr> else ?I0"
  have run: "agx_emit_intrinsic b instr = Inr (agx_builder_insert b ?I)"
    using assms h
    by (simp add: agx_emit_intrinsic_def agx_emit_load_vary_def nir_get_io_offset_src_def
        nir_src_is_const_def nir_src_as_uint_def nir_src_as_intrinsic_def agx_ld_vary_to_def
        imm_index_load update_last_instr_insert Let_def)
  have m: "?c < 4 \<longrightarrow> instr_mask ?I = 2 ^ ?c - 1 \<and> (\<forall>n. bit (instr_mask ?I) n \<longleftrightarrow> n < ?c)"
  proof
    assume c: "?c < 4"
    then have eq: "instr_mask ?I = BITFIELD_MASK ?c" by simp
    from BITFIELD_MASK_bits [OF c]
    show "instr_mask ?I = 2 ^ ?c - 1 \<and> (\<forall>n. bit (instr_mask ?I) n \<longleftrightarrow> n < ?c)"
      unfolding eq .
  qed
  have fields: "op ?I = AGX_OPCODE_LD_VARY" "dest ?I = agx_dest_index (intr_dest instr)"
    "src ?I = [agx_immediate (nir_intrinsic_base instr + ucast off)]"
    by (simp_all add: agx_alloc_instr_def)
  show "\<exists>I. agx_emit_intrinsic b instr = Inr (agx_builder_insert b I) \<and>
                 op I = AGX_OPCODE_LD_VARY \<and>
                 dest I = agx_dest_index (intr_dest instr) \<and>
                 src I = [agx_immediate (nir_intrinsic_base instr + ucast off)] \<and>
                 unat (nir_intrinsic_base instr + ucast off) =
                   (unat (nir_intrinsic_base instr) + unat off) mod 2 ^ 32 \<and>
                 (intr_num_components instr < 4 \<longrightarrow>
                    instr_mask I = 2 ^ intr_num_components instr - 1 \<and>
                    (\<forall>n. bit (instr_mask I) n \<longleftrightarrow> n < intr_num_components instr)) \<and>
                 (cursor b < length (blocks (shader b)) \<longrightarrow>
                    cursor_instructions (agx_builder_insert b I) = cursor_instructions b @ [I])"
    using run m fields unat_load_index cursor_instructions_insert by blast
next
  assume "intrinsic instr = nir_intrinsic_load_interpolated_input \<and>
          \<not> nir_src_is_const (intr_src instr 1)"
  then show "\<exists>e. agx_emit_intrinsic b instr = Inl e"
    using assms
    by (auto simp: agx_emit_intrinsic_def agx_emit_load_vary_def nir_get_io_offset_src_def Let_def
        split: option.splits)
next
  assume "intrinsic instr = nir_intrinsic_load_interpolated_input \<and>
          parent_instr (intr_src instr 0) \<noteq> parent_intrinsic nir_intrinsic_load_barycentric_pixel"
  then show "\<exists>e. agx_emit_intrinsic b instr = Inl e"
    using assms
    by (auto simp: agx_emit_intrinsic_def agx_emit_load_vary_def nir_src_as_intrinsic_def Let_def
        split: option.splits nir_parent_instr.splits)
next
  assume "intrinsic instr = nir_intrinsic_load_input"
  then show "agx_emit_intrinsic b instr = Inl (Unreachable ''todo: flat varyings'')"
    using assms by (simp add: agx_emit_intrinsic_def agx_emit_load_vary_def)
qed

theorem agx_emit_load_vary_index_witness:
  "stage (shader (example_builder MESA_SHADER_FRAGMENT)) = MESA_SHADER_FRAGMENT \<and>
   (\<exists>I. agx_emit_intrinsic (example_builder MESA_SHADER_FRAGMENT)
          (example_intrinsic nir_intrinsic_load_interpolated_input 1 example_barycentric) =
          Inr (agx_builder_insert (example_builder MESA_SHADER_FRAGMENT) I) \<and>
        op I = AGX_OPCODE_LD_VARY \<and>
        src I = [agx_immediate 4] \<and>
        instr_mask I = 3) \<and>
   (\<exists>e. agx_emit_intrinsic (example_builder MESA_SHADER_FRAGMENT)
          ((example_intrinsic nir_intrinsic_load_interpolated_input 1 example_barycentric)
             \<lparr>intr_src := (\<lambda>i. if i = 0 then example_barycentric
                                else example_src 2 1 parent_other)\<rparr>) = Inl e) \<and>
   (\<exists>e. agx_emit_intrinsic (example_builder MESA_SHADER_FRAGMENT)
          (example_intrinsic nir_intrinsic_load_interpolated_input 1
             (example_src 1 2 (parent_intrinsic nir_intrinsic_load_barycentric_centroid))) = Inl e) \<and>
   agx_emit_intrinsic (example_builder MESA_SHADER_FRAGMENT)
     (example_intrinsic nir_intrinsic_load_input 1 example_barycentric) =
     Inl (Unreachable ''todo: flat varyings'')"
proof -
  let ?b = "example_builder MESA_SHADER_FRAGMENT"
  let ?s = "example_intrinsic nir_intrinsic_load_interpolated_input 1 example_barycentric"
  let ?d = "?s\<lparr>intr_src := (\<lambda>i. if i = 0 then example_barycentric
                                else example_src 2 1 parent_other)\<rparr>"
  let ?c = "example_intrinsic nir_intrinsic_load_interpolated_input 1
             (example_src 1 2 (parent_intrinsic nir_intrinsic_load_barycentric_centroid))"
  let ?f = "example_intrinsic nir_intrinsic_load_input 1 example_barycentric"
  have st: "stage (shader ?b) = MESA_SHADER_FRAGMENT"
    by (simp add: example_builder_def example_context_def)
  have s: "intrinsic ?s = nir_intrinsic_load_interpolated_input"
    "parent_instr (intr_src ?s 0) = parent_intrinsic nir_intrinsic_load_barycentric_pixel"
    "parent_instr (intr_src ?s 1) = parent_load_const 3"
    "intr_num_components ?s < 4"
    by (simp_all add: example_intrinsic_def example_src_def example_barycentric_def)
  have v: "nir_intrinsic_base ?s + ucast (3 :: 64 word) = 4"
    "(2 :: 32 word) ^ intr_num_components ?s - 1 = 3"
    by (simp_all add: example_intrinsic_def)
  from agx_emit_load_vary_index [OF st, of ?s 3] s
  obtain I where I: "agx_emit_intrinsic ?b ?s = Inr (agx_builder_insert ?b I)"
    "op I = AGX_OPCODE_LD_VARY"
    "src I = [agx_immediate (nir_intrinsic_base ?s + ucast (3 :: 64 word))]"
    "instr_mask I = 2 ^ intr_num_components ?s - 1"
    by blast
  from I v have c1: "\<exists>I. agx_emit_intrinsic ?b ?s = Inr (agx_builder_insert ?b I) \<and>
        op I = AGX_OPCODE_LD_VARY \<and> src I = [agx_immediate 4] \<and> instr_mask I = 3"
    by (simp only:) blast
  have d: "intrinsic ?d = nir_intrinsic_load_interpolated_input"
    "\<not> nir_src_is_const (intr_src ?d 1)"
    by (simp_all add: example_intrinsic_def example_src_def nir_src_is_const_def)
  from agx_emit_load_vary_index [OF st, of ?d 3] d
  have c2: "\<exists>e. agx_emit_intrinsic ?b ?d = Inl e" by blast
  have c: "intrinsic ?c = nir_intrinsic_load_interpolated_input"
    "parent_instr (intr_src ?c 0) \<noteq> parent_intrinsic nir_intrinsic_load_barycentric_pixel"
    by (simp_all add: example_intrinsic_def example_src_def)
  from agx_emit_load_vary_index [OF st, of ?c 3] c
  have c3: "\<exists>e. agx_emit_intrinsic ?b ?c = Inl e" by blast
  have f: "intrinsic ?f = nir_intrinsic_load_input"
    by (simp add: example_intrinsic_def)
  from agx_emit_load_vary_index [OF st, of ?f 3] f
  have c4: "agx_emit_intrinsic ?b ?f = Inl (Unreachable ''todo: flat varyings'')" by blast
  from st c1 c2 c3 c4 show ?thesis by blast
qed

subsection \<open>Fragment outputs\<close>

text \<open>
  Claim C1, as stated, fails: the output variable at driver location 1 of the example
  shader has the colour location, which resolves to render target 0, but its
  dual-source index is 1, and the store ends in an error instead of the three
  instructions.
\<close>

theorem agx_emit_fragment_out_dual_source_fatal:
  "nir_find_variable_with_driver_location (nir (shader (example_builder MESA_SHADER_FRAGMENT)))
     nir_var_shader_out 1 =
     Some \<lparr>var_mode = nir_var_shader_out, driver_location = 1,
           location = FRAG_RESULT_COLOR, var_index = 1\<rparr> \<and>
   agx_emit_intrinsic (example_builder MESA_SHADER_FRAGMENT)
     (example_intrinsic nir_intrinsic_store_output 1 example_barycentric) =
     Inl (Assert ''var->data.index == 0 && todo: dual-source blending'')"
  by (simp add: agx_emit_intrinsic_def agx_emit_fragment_out_def
      nir_find_variable_with_driver_location_def example_intrinsic_def example_builder_def
      example_context_def example_shader_def FRAG_RESULT_COLOR_def FRAG_RESULT_DATA0_def)

text \<open>
  Claim C1, amended. In the fragment stage, with a compilation key \<open>k\<close>, a store of an
  output whose variable has dual-source index 0 and the colour location or the first
  data location appends exactly, in order, a writeout with immediate \<open>0xC200\<close>, a
  writeout with immediate \<open>0x000C\<close> and a blend whose source is the stored value and
  whose format is the format of render target 0 in the key. A variable whose render
  target, \<open>0\<close> for the colour location and \<open>location - FRAG_RESULT_DATA0\<close> otherwise, is
  not 0 ends the compilation with an error, and so does a variable whose dual-source
  index is not 0.
\<close>

theorem agx_emit_fragment_out_sequence:
  assumes "stage (shader b) = MESA_SHADER_FRAGMENT"
    and "intrinsic instr = nir_intrinsic_store_output"
    and "nir_find_variable_with_driver_location (nir (shader b)) nir_var_shader_out
           (nir_intrinsic_base instr) = Some var"
    and "key (shader b) = Some k"
  shows "(var_index var = 0 \<and>
          (location var = FRAG_RESULT_COLOR \<or> location var = FRAG_RESULT_DATA0) \<longrightarrow>
            (\<exists>W1 W2 B.
               agx_emit_intrinsic b instr =
                 Inr (agx_builder_insert (agx_builder_insert (agx_builder_insert b W1) W2) B) \<and>
               op W1 = AGX_OPCODE_WRITEOUT \<and> imm W1 = 0xC200 \<and>
               op W2 = AGX_OPCODE_WRITEOUT \<and> imm W2 = 0x000C \<and>
               op B = AGX_OPCODE_BLEND \<and> src B = [agx_src_index (intr_src instr 0)] \<and>
               format B = tib_formats k 0 \<and>
               (cursor b < length (blocks (shader b)) \<longrightarrow>
                  cursor_instructions
                    (agx_builder_insert (agx_builder_insert (agx_builder_insert b W1) W2) B) =
                    cursor_instructions b @ [W1, W2, B]))) \<and>
         ((if location var = FRAG_RESULT_COLOR then 0 else location var - FRAG_RESULT_DATA0) \<ge> 1 \<longrightarrow>
            (\<exists>e. agx_emit_intrinsic b instr = Inl e)) \<and>
         (var_index var \<noteq> 0 \<longrightarrow>
            agx_emit_intrinsic b instr =
              Inl (Assert ''var->data.index == 0 && todo: dual-source blending''))"
proof (intro conjI impI)
  assume h: "var_index var = 0 \<and>
          (location var = FRAG_RESULT_COLOR \<or> location var = FRAG_RESULT_DATA0)"
  let ?W1 = "(agx_alloc_instr AGX_OPCODE_WRITEOUT)\<lparr>imm := 0xC200\<rparr>"
  let ?W2 = "(agx_alloc_instr AGX_OPCODE_WRITEOUT)\<lparr>imm := 0x000C\<rparr>"
  let ?B = "(agx_alloc_instr AGX_OPCODE_BLEND)
              \<lparr>src := [agx_src_index (intr_src instr 0)], format := tib_formats k 0\<rparr>"
  let ?b' = "agx_builder_insert (agx_builder_insert (agx_builder_insert b ?W1) ?W2) ?B"
  have key2: "key (shader (agx_builder_insert (agx_builder_insert b ?W1) ?W2)) = Some k"
    using assms(4) by (simp add: agx_builder_insert_def update_cursor_block_def)
  have rt: "unat (if location var = FRAG_RESULT_COLOR then 0
                  else location var - FRAG_RESULT_DATA0) = 0"
    using h by auto
  have run: "agx_emit_intrinsic b instr = Inr ?b'"
    using assms(1-3) h key2 rt
    by (simp add: agx_emit_intrinsic_def agx_emit_fragment_out_def agx_writeout_def
        agx_blend_def Let_def)
  have fields: "op ?W1 = AGX_OPCODE_WRITEOUT" "imm ?W1 = 0xC200"
    "op ?W2 = AGX_OPCODE_WRITEOUT" "imm ?W2 = 0x000C"
    "op ?B = AGX_OPCODE_BLEND" "src ?B = [agx_src_index (intr_src instr 0)]"
    "format ?B = tib_formats k 0"
    by (simp_all add: agx_alloc_instr_def)
  have seq: "cursor b < length (blocks (shader b)) \<longrightarrow>
      cursor_instructions ?b' = cursor_instructions b @ [?W1, ?W2, ?B]"
    by (simp add: cursor_instructions_insert)
  show "\<exists>W1 W2 B.
               agx_emit_intrinsic b instr =
                 Inr (agx_builder_insert (agx_builder_insert (agx_builder_insert b W1) W2) B) \<and>
               op W1 = AGX_OPCODE_WRITEOUT \<and> imm W1 = 0xC200 \<and>
               op W2 = AGX_OPCODE_WRITEOUT \<and> imm W2 = 0x000C \<and>
               op B = AGX_OPCODE_BLEND \<and> src B = [agx_src_index (intr_src instr 0)] \<and>
               format B = tib_formats k 0 \<and>
               (cursor b < length (blocks (shader b)) \<longrightarrow>
                  cursor_instructions
                    (agx_builder_insert (agx_builder_insert (agx_builder_insert b W1) W2) B) =
                    cursor_instructions b @ [W1, W2, B])"
    using run fields seq by blast
next
  assume "(if location var = FRAG_RESULT_COLOR then 0 else location var - FRAG_RESULT_DATA0) \<ge> 1"
  then have "location var \<noteq> FRAG_RESULT_COLOR" "location var \<noteq> FRAG_RESULT_DATA0"
    by (auto split: if_splits)
  then show "\<exists>e. agx_emit_intrinsic b instr = Inl e"
    using assms(1-3)
    by (simp add: agx_emit_intrinsic_def agx_emit_fragment_out_def Let_def)
next
  assume "var_index var \<noteq> 0"
  then show "agx_emit_intrinsic b instr =
      Inl (Assert ''var->data.index == 0 && todo: dual-source blending'')"
    using assms(1-3)
    by (simp add: agx_emit_intrinsic_def agx_emit_fragment_out_def Let_def)
qed

theorem agx_emit_fragment_out_sequence_witness:
  "stage (shader (example_builder MESA_SHADER_FRAGMENT)) = MESA_SHADER_FRAGMENT \<and>
   key (shader (example_builder MESA_SHADER_FRAGMENT)) = Some example_key \<and>
   (\<exists>W1 W2 B.
      agx_emit_intrinsic (example_builder MESA_SHADER_FRAGMENT)
        (example_intrinsic nir_intrinsic_store_output 0 example_barycentric) =
        Inr (agx_builder_insert
               (agx_builder_insert (agx_builder_insert (example_builder MESA_SHADER_FRAGMENT) W1) W2)
               B) \<and>
      op W1 = AGX_OPCODE_WRITEOUT \<and> imm W1 = 0xC200 \<and>
      op W2 = AGX_OPCODE_WRITEOUT \<and> imm W2 = 0x000C \<and>
      op B = AGX_OPCODE_BLEND \<and> src B = [agx_get_index 1 32] \<and> format B = 10 \<and>
      cursor_instructions
        (agx_builder_insert
           (agx_builder_insert (agx_builder_insert (example_builder MESA_SHADER_FRAGMENT) W1) W2)
           B) = [W1, W2, B]) \<and>
   (\<exists>e. agx_emit_intrinsic (example_builder MESA_SHADER_FRAGMENT)
          (example_intrinsic nir_intrinsic_store_output 2 example_barycentric) = Inl e) \<and>
   agx_emit_intrinsic (example_builder MESA_SHADER_FRAGMENT)
     (example_intrinsic nir_intrinsic_store_output 1 example_barycentric) =
     Inl (Assert ''var->data.index == 0 && todo: dual-source blending'')"
proof -
  let ?b = "example_builder MESA_SHADER_FRAGMENT"
  let ?s = "example_intrinsic nir_intrinsic_store_output 0 example_barycentric"
  let ?m = "example_intrinsic nir_intrinsic_store_output 2 example_barycentric"
  let ?v0 = "\<lparr>var_mode = nir_var_shader_out, driver_location = 0,
              location = FRAG_RESULT_DATA0, var_index = 0\<rparr>"
  let ?v2 = "\<lparr>var_mode = nir_var_shader_out, driver_location = 2,
              location = FRAG_RESULT_DATA0 + 1, var_index = 0\<rparr>"
  have st: "stage (shader ?b) = MESA_SHADER_FRAGMENT"
    and k: "key (shader ?b) = Some example_key"
    and c: "cursor ?b < length (blocks (shader ?b))"
    and e: "cursor_instructions ?b = []"
    by (simp_all add: example_builder_def example_context_def cursor_instructions_def)
  have s: "intrinsic ?s = nir_intrinsic_store_output"
    "nir_find_variable_with_driver_location (nir (shader ?b)) nir_var_shader_out
       (nir_intrinsic_base ?s) = Some ?v0"
    "var_index ?v0 = 0" "location ?v0 = FRAG_RESULT_DATA0"
    "agx_src_index (intr_src ?s 0) = agx_get_index 1 32"
    "tib_formats example_key 0 = 10"
    by (simp_all add: example_intrinsic_def example_builder_def example_context_def
        example_shader_def nir_find_variable_with_driver_location_def example_key_def
        agx_src_index_def agx_size_for_bits_def nir_src_bit_size_def example_barycentric_def
        example_src_def)
  have m: "intrinsic ?m = nir_intrinsic_store_output"
    "nir_find_variable_with_driver_location (nir (shader ?b)) nir_var_shader_out
       (nir_intrinsic_base ?m) = Some ?v2"
    "(if location ?v2 = FRAG_RESULT_COLOR then 0 else location ?v2 - FRAG_RESULT_DATA0) \<ge> 1"
    by (simp_all add: example_intrinsic_def example_builder_def example_context_def
        example_shader_def nir_find_variable_with_driver_location_def
        FRAG_RESULT_COLOR_def FRAG_RESULT_DATA0_def)
  from agx_emit_fragment_out_sequence [OF st s(1) s(2) k] s(3,4) c
  obtain W1 W2 B where r:
    "agx_emit_intrinsic ?b ?s =
       Inr (agx_builder_insert (agx_builder_insert (agx_builder_insert ?b W1) W2) B)"
    "op W1 = AGX_OPCODE_WRITEOUT" "imm W1 = 0xC200"
    "op W2 = AGX_OPCODE_WRITEOUT" "imm W2 = 0x000C"
    "op B = AGX_OPCODE_BLEND" "src B = [agx_src_index (intr_src ?s 0)]"
    "format B = tib_formats example_key 0"
    "cursor_instructions (agx_builder_insert (agx_builder_insert (agx_builder_insert ?b W1) W2) B) =
       cursor_instructions ?b @ [W1, W2, B]"
    by blast
  from r(7) s(5) have r7: "src B = [agx_get_index 1 32]" by (simp only:)
  from r(8) s(6) have r8: "format B = 10" by (simp only:)
  from r(9) e have r9:
    "cursor_instructions (agx_builder_insert (agx_builder_insert (agx_builder_insert ?b W1) W2) B) =
       [W1, W2, B]" by simp
  from agx_emit_fragment_out_sequence [OF st m(1) m(2) k] m(3)
  have c2: "\<exists>e. agx_emit_intrinsic ?b ?m = Inl e" by blast
  let ?d = "example_intrinsic nir_intrinsic_store_output 1 example_barycentric"
  let ?v1 = "\<lparr>var_mode = nir_var_shader_out, driver_location = 1,
              location = FRAG_RESULT_COLOR, var_index = 1\<rparr>"
  have d: "intrinsic ?d = nir_intrinsic_store_output"
    "nir_find_variable_with_driver_location (nir (shader ?b)) nir_var_shader_out
       (nir_intrinsic_base ?d) = Some ?v1"
    "var_index ?v1 \<noteq> 0"
    by (simp_all add: example_intrinsic_def example_builder_def example_context_def
        example_shader_def nir_find_variable_with_driver_location_def)
  from d(3) have c3: "agx_emit_intrinsic ?b ?d =
      Inl (Assert ''var->data.index == 0 && todo: dual-source blending'')"
    by (rule agx_emit_fragment_out_sequence [OF st d(1) d(2) k, THEN conjunct2, THEN conjunct2,
          THEN mp])
  from st k r(1-6) r7 r8 r9 have c1: "\<exists>W1 W2 B.
      agx_emit_intrinsic ?b ?s =
        Inr (agx_builder_insert (agx_builder_insert (agx_builder_insert ?b W1) W2) B) \<and>
      op W1 = AGX_OPCODE_WRITEOUT \<and> imm W1 = 0xC200 \<and>
      op W2 = AGX_OPCODE_WRITEOUT \<and> imm W2 = 0x000C \<and>
      op B = AGX_OPCODE_BLEND \<and> src B = [agx_get_index 1 32] \<and> format B = 10 \<and>
      cursor_instructions
        (agx_builder_insert (agx_builder_insert (agx_builder_insert ?b W1) W2) B) = [W1, W2, B]"
    by blast
  from st k c1 c2 c3 show ?thesis by (intro conjI)
qed

subsection \<open>Sequences of insertions\<close>

lemma bump_alloc_0 [simp]: "bump_alloc 0 b = b"
  by (simp add: bump_alloc_def)

lemma bump_alloc_bump_alloc [simp]: "bump_alloc m (bump_alloc n b) = bump_alloc (n + m) b"
  by (simp add: bump_alloc_def add.assoc)

lemma insert_bump_alloc:
  "agx_builder_insert (bump_alloc n b) I = bump_alloc n (agx_builder_insert b I)"
  by (simp add: bump_alloc_def agx_builder_insert_def update_cursor_block_def)

lemma insert_all_Nil [simp]: "insert_all b [] = b"
  by (simp add: insert_all_def)

lemma insert_all_Cons: "insert_all b (I # Is) = insert_all (agx_builder_insert b I) Is"
  by (simp add: insert_all_def)

lemma insert_all_append: "insert_all b (E @ F) = insert_all (insert_all b E) F"
  by (simp add: insert_all_def)

lemma insert_all_snoc: "insert_all b (E @ [I]) = agx_builder_insert (insert_all b E) I"
  by (simp add: insert_all_def)

lemma insert_all_bump_alloc: "insert_all (bump_alloc n b) E = bump_alloc n (insert_all b E)"
  by (induction E arbitrary: b) (simp_all add: insert_all_Cons insert_bump_alloc)

lemma insert_all_step:
  "insert_all (bump_alloc m (insert_all (bump_alloc n b) E)) F =
     insert_all (bump_alloc (n + m) b) (E @ F)"
  by (simp add: insert_all_bump_alloc insert_all_append)

lemma cursor_bump_alloc [simp]: "cursor (bump_alloc n b) = cursor b"
  by (simp add: bump_alloc_def)

lemma blocks_bump_alloc [simp]: "blocks (shader (bump_alloc n b)) = blocks (shader b)"
  by (simp add: bump_alloc_def)

lemma cursor_insert_all [simp]: "cursor (insert_all b E) = cursor b"
  by (induction E arbitrary: b) (simp_all add: insert_all_Cons)

lemma length_blocks_insert_all [simp]:
  "length (blocks (shader (insert_all b E))) = length (blocks (shader b))"
  by (induction E arbitrary: b) (simp_all add: insert_all_Cons)

lemma cursor_instructions_bump_alloc [simp]:
  "cursor_instructions (bump_alloc n b) = cursor_instructions b"
  by (simp add: cursor_instructions_def)

lemma cursor_instructions_insert_all:
  "cursor b < length (blocks (shader b)) \<Longrightarrow>
   cursor_instructions (insert_all b E) = cursor_instructions b @ E"
  by (induction E arbitrary: b) (simp_all add: insert_all_Cons cursor_instructions_insert)

text \<open>Insertions leave the other blocks, and all of the context but its blocks, as they are.\<close>

lemma blocks_insert_other:
  "i \<noteq> cursor b \<Longrightarrow> blocks (shader (agx_builder_insert b I)) ! i = blocks (shader b) ! i"
  by (simp add: agx_builder_insert_def update_cursor_block_def)

lemma blocks_insert_all_other:
  "i \<noteq> cursor b \<Longrightarrow> blocks (shader (insert_all b E)) ! i = blocks (shader b) ! i"
  by (induction E arbitrary: b) (simp_all add: insert_all_Cons blocks_insert_other)

lemma context_insert [simp]:
  "nir (shader (agx_builder_insert b I)) = nir (shader b)"
  "stage (shader (agx_builder_insert b I)) = stage (shader b)"
  "key (shader (agx_builder_insert b I)) = key (shader b)"
  "alloc (shader (agx_builder_insert b I)) = alloc (shader b)"
  by (simp_all add: agx_builder_insert_def update_cursor_block_def)

lemma context_insert_all [simp]:
  "nir (shader (insert_all b E)) = nir (shader b)"
  "stage (shader (insert_all b E)) = stage (shader b)"
  "key (shader (insert_all b E)) = key (shader b)"
  "alloc (shader (insert_all b E)) = alloc (shader b)"
  by (induction E arbitrary: b) (simp_all add: insert_all_Cons)

lemma context_bump_alloc [simp]:
  "nir (shader (bump_alloc n b)) = nir (shader b)"
  "stage (shader (bump_alloc n b)) = stage (shader b)"
  "key (shader (bump_alloc n b)) = key (shader b)"
  "alloc (shader (bump_alloc n b)) = alloc (shader b) + n"
  by (simp_all add: bump_alloc_def)

subsection \<open>ALU instructions\<close>

text \<open>The extraction that \<open>agx_alu_src_index\<close> interposes for a source operand.\<close>

lemma agx_alu_src_index_extract:
  assumes "nir_src_bit_size (alu_src_src s) \<in> {16, 32, 64}"
    and "\<not> negate s" and "\<not> src_abs s"
    and "swizzle s 0 < nir_src_num_components (alu_src_src s)"
  shows "agx_alu_src_index b s =
     (if 1 < nir_src_num_components (alu_src_src s)
      then Inr (agx_builder_insert (bump_alloc 1 b)
                  ((agx_alloc_instr AGX_OPCODE_P_EXTRACT)
                     \<lparr>dest := agx_get_index (alloc (shader b)) (nir_src_bit_size (alu_src_src s)),
                      src := [agx_src_index (alu_src_src s)],
                      channel := swizzle s 0\<rparr>),
                agx_get_index (alloc (shader b)) (nir_src_bit_size (alu_src_src s)))
      else Inr (b, agx_src_index (alu_src_src s)))"
  using assms
  by (auto simp: agx_alu_src_index_def agx_p_extract_def agx_p_extract_to_def Let_def
      agx_src_index_def agx_index_size_def agx_size_for_bits_def bump_alloc_def)

lemma agx_alu_src_index_modifier:
  "negate s \<or> src_abs s \<Longrightarrow> \<exists>e. agx_alu_src_index b s = Inl e"
  by (auto simp: agx_alu_src_index_def Let_def)

lemma agx_alu_src_index_well_formed:
  assumes "alu_src_well_formed s"
  shows "agx_alu_src_index b s =
     (if 1 < nir_src_num_components (alu_src_src s)
      then Inr (agx_builder_insert (bump_alloc 1 b)
                  ((agx_alloc_instr AGX_OPCODE_P_EXTRACT)
                     \<lparr>dest := agx_get_index (alloc (shader b)) (nir_src_bit_size (alu_src_src s)),
                      src := [agx_src_index (alu_src_src s)],
                      channel := swizzle s 0\<rparr>),
                agx_get_index (alloc (shader b)) (nir_src_bit_size (alu_src_src s)))
      else Inr (b, agx_src_index (alu_src_src s)))"
  using assms agx_alu_src_index_extract [of s b]
  by (auto simp: alu_src_well_formed_def)

text \<open>One operand of \<open>agx_emit_alu\<close>: what is inserted and which operand results.\<close>

lemma alu_src_or_null_step:
  assumes "i < n \<longrightarrow> alu_src_well_formed (alu_src instr i)"
  shows "\<exists>E s. alu_src_or_null b instr n i = Inr (insert_all (bump_alloc (length E) b) E, s) \<and>
     length E = (if i < n \<and> 1 < nir_src_num_components (alu_src_src (alu_src instr i)) then 1 else 0) \<and>
     (\<forall>X \<in> set E. op X = AGX_OPCODE_P_EXTRACT \<and> dest X = s \<and>
        src X = [agx_src_index (alu_src_src (alu_src instr i))] \<and>
        channel X = swizzle (alu_src instr i) 0) \<and>
     (E = [] \<longrightarrow> s = (if i < n then agx_src_index (alu_src_src (alu_src instr i)) else agx_null))"
proof (cases "i < n")
  case False
  then have "alu_src_or_null b instr n i = Inr (insert_all (bump_alloc (length []) b) [], agx_null)"
    by (simp add: alu_src_or_null_def)
  with False show ?thesis by (intro exI [of _ "[]"] exI [of _ agx_null]) simp
next
  case True
  with assms have wf: "alu_src_well_formed (alu_src instr i)" by simp
  let ?s = "alu_src instr i"
  show ?thesis
  proof (cases "1 < nir_src_num_components (alu_src_src ?s)")
    case False
    with True wf have "alu_src_or_null b instr n i =
        Inr (insert_all (bump_alloc (length []) b) [], agx_src_index (alu_src_src ?s))"
      by (simp add: alu_src_or_null_def agx_alu_src_index_well_formed)
    with True False show ?thesis
      by (intro exI [of _ "[]"] exI [of _ "agx_src_index (alu_src_src ?s)"]) simp
  next
    case multi: True
    let ?t = "agx_get_index (alloc (shader b)) (nir_src_bit_size (alu_src_src ?s))"
    let ?X = "(agx_alloc_instr AGX_OPCODE_P_EXTRACT)
                 \<lparr>dest := ?t, src := [agx_src_index (alu_src_src ?s)], channel := swizzle ?s 0\<rparr>"
    from True wf multi have "alu_src_or_null b instr n i =
        Inr (insert_all (bump_alloc (length [?X]) b) [?X], ?t)"
      by (simp add: alu_src_or_null_def agx_alu_src_index_well_formed insert_all_Cons)
    with True multi show ?thesis
      by (intro exI [of _ "[?X]"] exI [of _ ?t]) (simp add: agx_alloc_instr_def)
  qed
qed

lemma upt_2_3_4:
  "[0..<2] = [0, Suc 0]" "[0..<3] = [0, Suc 0, 2]" "[0..<4] = [0, Suc 0, 2, 3]"
  by (simp_all add: upt_rec)

lemma agx_emit_alu_combine:
  assumes opc: "alu_op instr \<in> {nir_op_vec2, nir_op_vec3, nir_op_vec4}"
    and sz: "def_bit_size (alu_dest instr) \<in> {16, 32, 64}"
    and wf: "\<forall>i < num_inputs (nir_op_infos (alu_op instr)). alu_src_well_formed (alu_src instr i)"
  shows "\<exists>E C. agx_emit_alu b instr = Inr (insert_all (bump_alloc (length E) b) (E @ [C])) \<and>
      op C = AGX_OPCODE_P_COMBINE \<and> dest C = agx_dest_index (alu_dest instr) \<and>
      length (src C) = 4 \<and>
      (\<forall>X \<in> set E. op X = AGX_OPCODE_P_EXTRACT) \<and>
      length E = length (filter (\<lambda>i. 1 < nir_src_num_components (alu_src_src (alu_src instr i)))
                           [0..<num_inputs (nir_op_infos (alu_op instr))]) \<and>
      (\<forall>i < 4.
         if num_inputs (nir_op_infos (alu_op instr)) \<le> i then src C ! i = agx_null
         else if 1 < nir_src_num_components (alu_src_src (alu_src instr i))
           then (\<exists>X \<in> set E. dest X = src C ! i \<and>
                   src X = [agx_src_index (alu_src_src (alu_src instr i))] \<and>
                   channel X = swizzle (alu_src instr i) 0)
           else src C ! i = agx_src_index (alu_src_src (alu_src instr i)))"
proof -
  let ?n = "num_inputs (nir_op_infos (alu_op instr))"
  let ?multi = "\<lambda>i. 1 < nir_src_num_components (alu_src_src (alu_src instr i))"
  let ?idx = "\<lambda>i. agx_src_index (alu_src_src (alu_src instr i))"
  let ?step = "\<lambda>i E s. length E = (if i < ?n \<and> ?multi i then 1 else 0) \<and>
     (\<forall>X \<in> set E. op X = AGX_OPCODE_P_EXTRACT \<and> dest X = s \<and> src X = [?idx i] \<and>
        channel X = swizzle (alu_src instr i) 0) \<and>
     (E = [] \<longrightarrow> s = (if i < ?n then ?idx i else agx_null))"
  from opc have n: "?n = 2 \<or> ?n = 3 \<or> ?n = 4"
    by (auto simp: nir_op_infos_def)
  from wf have w: "\<And>i. i < ?n \<longrightarrow> alu_src_well_formed (alu_src instr i)" by simp
  from alu_src_or_null_step [of 0 ?n instr b] w
  obtain E0 s0 where r0: "alu_src_or_null b instr ?n 0 = Inr (insert_all (bump_alloc (length E0) b) E0, s0)"
    and p0: "?step 0 E0 s0" by blast
  let ?b0 = "insert_all (bump_alloc (length E0) b) E0"
  from alu_src_or_null_step [of 1 ?n instr ?b0] w
  obtain E1 s1 where r1: "alu_src_or_null ?b0 instr ?n 1 = Inr (insert_all (bump_alloc (length E1) ?b0) E1, s1)"
    and p1: "?step 1 E1 s1" by blast
  let ?b1 = "insert_all (bump_alloc (length E1) ?b0) E1"
  from alu_src_or_null_step [of 2 ?n instr ?b1] w
  obtain E2 s2 where r2: "alu_src_or_null ?b1 instr ?n 2 = Inr (insert_all (bump_alloc (length E2) ?b1) E2, s2)"
    and p2: "?step 2 E2 s2" by blast
  let ?b2 = "insert_all (bump_alloc (length E2) ?b1) E2"
  from alu_src_or_null_step [of 3 ?n instr ?b2] w
  obtain E3 s3 where r3: "alu_src_or_null ?b2 instr ?n 3 = Inr (insert_all (bump_alloc (length E3) ?b2) E3, s3)"
    and p3: "?step 3 E3 s3" by blast
  let ?b3 = "insert_all (bump_alloc (length E3) ?b2) E3"
  let ?E = "E0 @ E1 @ E2 @ E3"
  let ?C = "(agx_alloc_instr AGX_OPCODE_P_COMBINE)
              \<lparr>dest := agx_dest_index (alu_dest instr), src := [s0, s1, s2, s3]\<rparr>"
  have b3: "?b3 = insert_all (bump_alloc (length ?E) b) ?E"
    by (simp add: insert_all_step add.assoc)
  have "agx_emit_alu b instr = Inr (agx_builder_insert ?b3 ?C)"
    using opc sz r0 r1 r2 r3
    by (auto simp: agx_emit_alu_def Let_def nir_op_is_vec_def agx_p_combine_to_def)
  then have run: "agx_emit_alu b instr = Inr (insert_all (bump_alloc (length ?E) b) (?E @ [?C]))"
    by (simp only: b3 insert_all_snoc)
  have fields: "op ?C = AGX_OPCODE_P_COMBINE" "dest ?C = agx_dest_index (alu_dest instr)"
    "length (src ?C) = 4"
    by (simp_all add: agx_alloc_instr_def)
  from p0 p1 p2 p3 have x: "\<forall>X \<in> set E0. op X = AGX_OPCODE_P_EXTRACT"
    "\<forall>X \<in> set E1. op X = AGX_OPCODE_P_EXTRACT" "\<forall>X \<in> set E2. op X = AGX_OPCODE_P_EXTRACT"
    "\<forall>X \<in> set E3. op X = AGX_OPCODE_P_EXTRACT"
    by blast+
  then have ext: "\<forall>X \<in> set ?E. op X = AGX_OPCODE_P_EXTRACT"
    by simp blast
  from p0 p1 p2 p3 have l: "length E0 = (if 0 < ?n \<and> ?multi 0 then 1 else 0)"
    "length E1 = (if 1 < ?n \<and> ?multi 1 then 1 else 0)"
    "length E2 = (if 2 < ?n \<and> ?multi 2 then 1 else 0)"
    "length E3 = (if 3 < ?n \<and> ?multi 3 then 1 else 0)"
    by blast+
  have len: "length ?E = length (filter ?multi [0..<?n])"
    using n
  proof (elim disjE)
    assume "?n = 2" with l show ?thesis by (simp add: upt_2_3_4)
  next
    assume "?n = 3" with l show ?thesis by (simp add: upt_2_3_4)
  next
    assume "?n = 4" with l show ?thesis by (simp add: upt_2_3_4)
  qed
  have operand: "if ?n \<le> i then s = agx_null
         else if ?multi i
           then (\<exists>X \<in> set ?E. dest X = s \<and> src X = [?idx i] \<and>
                   channel X = swizzle (alu_src instr i) 0)
           else s = ?idx i"
    if "?step i E s" "set E \<subseteq> set ?E" for i E s
  proof (cases "i < ?n \<and> ?multi i")
    case True
    from that(1) have "length E = (if i < ?n \<and> ?multi i then 1 else 0)" by blast
    with True have "length E = 1" by (auto split: if_splits)
    then obtain X where "E = [X]" by (cases E) auto
    with that True show ?thesis by auto
  next
    case False
    from that(1) have "length E = (if i < ?n \<and> ?multi i then 1 else 0)" by blast
    with False have "E = []" by (auto split: if_splits)
    with that(1) False show ?thesis by auto
  qed
  have o: "set E0 \<subseteq> set ?E" "set E1 \<subseteq> set ?E" "set E2 \<subseteq> set ?E" "set E3 \<subseteq> set ?E"
    by auto
  note o0 = operand [OF p0 o(1)] and o1 = operand [OF p1 o(2)]
    and o2 = operand [OF p2 o(3)] and o3 = operand [OF p3 o(4)]
  have srcs: "src ?C ! 0 = s0" "src ?C ! 1 = s1" "src ?C ! 2 = s2" "src ?C ! 3 = s3"
    by (simp_all add: agx_alloc_instr_def numeral_2_eq_2 numeral_3_eq_3)
  have ops: "\<forall>i < 4.
         if ?n \<le> i then src ?C ! i = agx_null
         else if ?multi i
           then (\<exists>X \<in> set ?E. dest X = src ?C ! i \<and> src X = [?idx i] \<and>
                   channel X = swizzle (alu_src instr i) 0)
           else src ?C ! i = ?idx i"
  proof (intro allI impI)
    fix i :: nat assume "i < 4"
    then consider "i = 0" | "i = 1" | "i = 2" | "i = 3" by linarith
    then show "if ?n \<le> i then src ?C ! i = agx_null
         else if ?multi i
           then (\<exists>X \<in> set ?E. dest X = src ?C ! i \<and> src X = [?idx i] \<and>
                   channel X = swizzle (alu_src instr i) 0)
           else src ?C ! i = ?idx i"
    proof cases
      case 1 with o0 srcs(1) show ?thesis by (simp only:)
    next
      case 2 with o1 srcs(2) show ?thesis by (simp only:)
    next
      case 3 with o2 srcs(3) show ?thesis by (simp only:)
    next
      case 4 with o3 srcs(4) show ?thesis by (simp only:)
    qed
  qed
  from run fields ext len ops show ?thesis by blast
qed

text \<open>A successful \<open>agx_emit_alu\<close> has selected four operands and a vector pack.\<close>

lemma agx_emit_alu_Inr_steps:
  assumes "agx_emit_alu b instr = Inr b'"
  shows "\<exists>b0 s0 b1 s1 b2 s2 b3 s3.
     alu_src_or_null b instr (num_inputs (nir_op_infos (alu_op instr))) 0 = Inr (b0, s0) \<and>
     alu_src_or_null b0 instr (num_inputs (nir_op_infos (alu_op instr))) 1 = Inr (b1, s1) \<and>
     alu_src_or_null b1 instr (num_inputs (nir_op_infos (alu_op instr))) 2 = Inr (b2, s2) \<and>
     alu_src_or_null b2 instr (num_inputs (nir_op_infos (alu_op instr))) 3 = Inr (b3, s3) \<and>
     alu_op instr \<in> {nir_op_vec2, nir_op_vec3, nir_op_vec4}"
  using assms
  by (simp add: agx_emit_alu_def Let_def split: if_splits sum.splits prod.splits nir_op.splits)

lemma alu_src_or_null_modifier:
  "i < n \<Longrightarrow> negate (alu_src instr i) \<or> src_abs (alu_src instr i) \<Longrightarrow>
   \<exists>e. alu_src_or_null b instr n i = Inl e"
  by (simp add: alu_src_or_null_def agx_alu_src_index_modifier)

lemma agx_emit_alu_other_fatal:
  assumes "alu_op instr \<notin> {nir_op_vec2, nir_op_vec3, nir_op_vec4}"
  shows "\<exists>e. agx_emit_alu b instr = Inl e"
proof (cases "agx_emit_alu b instr")
  case (Inl e)
  then show ?thesis by blast
next
  case (Inr b')
  from agx_emit_alu_Inr_steps [OF Inr] assms show ?thesis by blast
qed

lemma agx_emit_alu_modifier_fatal:
  assumes i: "i < num_inputs (nir_op_infos (alu_op instr))"
    and m: "negate (alu_src instr i) \<or> src_abs (alu_src instr i)"
  shows "\<exists>e. agx_emit_alu b instr = Inl e"
proof (cases "agx_emit_alu b instr")
  case (Inl e)
  then show ?thesis by blast
next
  case (Inr b')
  let ?n = "num_inputs (nir_op_infos (alu_op instr))"
  from agx_emit_alu_Inr_steps [OF Inr]
  obtain b0 s0 b1 s1 b2 s2 b3 s3 where
    r: "alu_src_or_null b instr ?n 0 = Inr (b0, s0)" "alu_src_or_null b0 instr ?n 1 = Inr (b1, s1)"
       "alu_src_or_null b1 instr ?n 2 = Inr (b2, s2)" "alu_src_or_null b2 instr ?n 3 = Inr (b3, s3)"
    and v: "alu_op instr \<in> {nir_op_vec2, nir_op_vec3, nir_op_vec4}"
    by blast
  from v have "?n \<le> 4" by (auto simp: nir_op_infos_def)
  with i consider "i = 0" | "i = 1" | "i = 2" | "i = 3" by linarith
  then have False
  proof cases
    case 1 with alu_src_or_null_modifier [OF i m, of b] r(1) show False by simp
  next
    case 2 with alu_src_or_null_modifier [OF i m, of b0] r(2) show False by simp
  next
    case 3 with alu_src_or_null_modifier [OF i m, of b1] r(3) show False by simp
  next
    case 4 with alu_src_or_null_modifier [OF i m, of b2] r(4) show False by simp
  qed
  then show ?thesis ..
qed

text \<open>
  Claim C6. For an ALU instruction whose destination has bit width 16, 32 or 64 and
  whose source operands pass the well-formedness assertions, a 2-, 3- or 4-way vector
  pack is selected as exactly one combine instruction, preceded by one extraction
  instruction for each source operand of more than one component: the operand of the
  combine is then the destination of the extraction, which reads the register of the
  source at the selected channel; an operand of one component is the register of the
  source, and the operands beyond the inputs of the pack are absent. Every other opcode
  ends the compilation with an error, and so does every instruction with a negation or
  absolute-value modifier on a source operand. The last part describes the selection of
  one source operand.
\<close>

theorem agx_emit_alu_vec_only:
  "(alu_op instr \<in> {nir_op_vec2, nir_op_vec3, nir_op_vec4} \<and>
    def_bit_size (alu_dest instr) \<in> {16, 32, 64} \<and>
    (\<forall>i < num_inputs (nir_op_infos (alu_op instr)). alu_src_well_formed (alu_src instr i)) \<longrightarrow>
      (\<exists>E C. agx_emit_alu b instr = Inr (insert_all (bump_alloc (length E) b) (E @ [C])) \<and>
         agx_emit_instr b (nir_instr_type_alu instr) =
           Inr (insert_all (bump_alloc (length E) b) (E @ [C])) \<and>
         op C = AGX_OPCODE_P_COMBINE \<and> dest C = agx_dest_index (alu_dest instr) \<and>
         length (src C) = 4 \<and>
         (\<forall>X \<in> set E. op X = AGX_OPCODE_P_EXTRACT) \<and>
         length E = length (filter (\<lambda>i. 1 < nir_src_num_components (alu_src_src (alu_src instr i)))
                              [0..<num_inputs (nir_op_infos (alu_op instr))]) \<and>
         (\<forall>i < 4.
            if num_inputs (nir_op_infos (alu_op instr)) \<le> i then src C ! i = agx_null
            else if 1 < nir_src_num_components (alu_src_src (alu_src instr i))
              then (\<exists>X \<in> set E. dest X = src C ! i \<and>
                      src X = [agx_src_index (alu_src_src (alu_src instr i))] \<and>
                      channel X = swizzle (alu_src instr i) 0)
              else src C ! i = agx_src_index (alu_src_src (alu_src instr i))) \<and>
         (cursor b < length (blocks (shader b)) \<longrightarrow>
            cursor_instructions (insert_all (bump_alloc (length E) b) (E @ [C])) =
              cursor_instructions b @ E @ [C]))) \<and>
   (alu_op instr \<notin> {nir_op_vec2, nir_op_vec3, nir_op_vec4} \<longrightarrow>
      (\<exists>e. agx_emit_alu b instr = Inl e)) \<and>
   (j < num_inputs (nir_op_infos (alu_op instr)) \<and>
    (negate (alu_src instr j) \<or> src_abs (alu_src instr j)) \<longrightarrow>
      (\<exists>e. agx_emit_alu b instr = Inl e)) \<and>
   (alu_src_well_formed s \<longrightarrow>
      agx_alu_src_index b s =
        (if 1 < nir_src_num_components (alu_src_src s)
         then Inr (agx_builder_insert (bump_alloc 1 b)
                     ((agx_alloc_instr AGX_OPCODE_P_EXTRACT)
                        \<lparr>dest := agx_get_index (alloc (shader b))
                                   (nir_src_bit_size (alu_src_src s)),
                         src := [agx_src_index (alu_src_src s)],
                         channel := swizzle s 0\<rparr>),
                   agx_get_index (alloc (shader b)) (nir_src_bit_size (alu_src_src s)))
         else Inr (b, agx_src_index (alu_src_src s))))"
proof (intro conjI impI)
  assume h: "alu_op instr \<in> {nir_op_vec2, nir_op_vec3, nir_op_vec4} \<and>
    def_bit_size (alu_dest instr) \<in> {16, 32, 64} \<and>
    (\<forall>i < num_inputs (nir_op_infos (alu_op instr)). alu_src_well_formed (alu_src instr i))"
  then have h1: "alu_op instr \<in> {nir_op_vec2, nir_op_vec3, nir_op_vec4}"
    and h2: "def_bit_size (alu_dest instr) \<in> {16, 32, 64}"
    and h3: "\<forall>i < num_inputs (nir_op_infos (alu_op instr)). alu_src_well_formed (alu_src instr i)"
    by blast+
  have e: "agx_emit_instr b (nir_instr_type_alu instr) = agx_emit_alu b instr"
    by (simp add: agx_emit_instr_def)
  have c: "cursor b < length (blocks (shader b)) \<longrightarrow>
            cursor_instructions (insert_all (bump_alloc (length E) b) (E @ [C])) =
              cursor_instructions b @ E @ [C]" for E C
    by (simp add: cursor_instructions_insert_all)
  from agx_emit_alu_combine [OF h1 h2 h3, of b] e c
  show "\<exists>E C. agx_emit_alu b instr = Inr (insert_all (bump_alloc (length E) b) (E @ [C])) \<and>
         agx_emit_instr b (nir_instr_type_alu instr) =
           Inr (insert_all (bump_alloc (length E) b) (E @ [C])) \<and>
         op C = AGX_OPCODE_P_COMBINE \<and> dest C = agx_dest_index (alu_dest instr) \<and>
         length (src C) = 4 \<and>
         (\<forall>X \<in> set E. op X = AGX_OPCODE_P_EXTRACT) \<and>
         length E = length (filter (\<lambda>i. 1 < nir_src_num_components (alu_src_src (alu_src instr i)))
                              [0..<num_inputs (nir_op_infos (alu_op instr))]) \<and>
         (\<forall>i < 4.
            if num_inputs (nir_op_infos (alu_op instr)) \<le> i then src C ! i = agx_null
            else if 1 < nir_src_num_components (alu_src_src (alu_src instr i))
              then (\<exists>X \<in> set E. dest X = src C ! i \<and>
                      src X = [agx_src_index (alu_src_src (alu_src instr i))] \<and>
                      channel X = swizzle (alu_src instr i) 0)
              else src C ! i = agx_src_index (alu_src_src (alu_src instr i))) \<and>
         (cursor b < length (blocks (shader b)) \<longrightarrow>
            cursor_instructions (insert_all (bump_alloc (length E) b) (E @ [C])) =
              cursor_instructions b @ E @ [C])"
    by (simp only:) blast
next
  assume "alu_op instr \<notin> {nir_op_vec2, nir_op_vec3, nir_op_vec4}"
  then show "\<exists>e. agx_emit_alu b instr = Inl e" by (rule agx_emit_alu_other_fatal)
next
  assume "j < num_inputs (nir_op_infos (alu_op instr)) \<and>
    (negate (alu_src instr j) \<or> src_abs (alu_src instr j))"
  then show "\<exists>e. agx_emit_alu b instr = Inl e"
    using agx_emit_alu_modifier_fatal by blast
next
  assume "alu_src_well_formed s"
  then show "agx_alu_src_index b s =
        (if 1 < nir_src_num_components (alu_src_src s)
         then Inr (agx_builder_insert (bump_alloc 1 b)
                     ((agx_alloc_instr AGX_OPCODE_P_EXTRACT)
                        \<lparr>dest := agx_get_index (alloc (shader b))
                                   (nir_src_bit_size (alu_src_src s)),
                         src := [agx_src_index (alu_src_src s)],
                         channel := swizzle s 0\<rparr>),
                   agx_get_index (alloc (shader b)) (nir_src_bit_size (alu_src_src s)))
         else Inr (b, agx_src_index (alu_src_src s)))"
    by (rule agx_alu_src_index_well_formed)
qed

theorem agx_emit_alu_vec_only_witness:
  "(\<exists>E C. agx_emit_alu (example_builder MESA_SHADER_FRAGMENT) (example_alu nir_op_vec3) =
            Inr (insert_all (bump_alloc (length E) (example_builder MESA_SHADER_FRAGMENT)) (E @ [C])) \<and>
          op C = AGX_OPCODE_P_COMBINE \<and> dest C = agx_get_index 9 32 \<and>
          length E = 1 \<and>
          src C ! 0 = agx_get_index 20 32 \<and>
          (\<exists>X \<in> set E. op X = AGX_OPCODE_P_EXTRACT \<and> dest X = src C ! 1 \<and>
             src X = [agx_get_index 21 32] \<and> channel X = 2) \<and>
          src C ! 2 = agx_get_index 22 32 \<and>
          src C ! 3 = agx_null \<and>
          cursor_instructions
            (insert_all (bump_alloc (length E) (example_builder MESA_SHADER_FRAGMENT)) (E @ [C])) =
            E @ [C]) \<and>
   (\<exists>e. agx_emit_alu (example_builder MESA_SHADER_FRAGMENT)
          (example_alu (nir_op_other \<lparr>op_name = ''fadd'', num_inputs = 2\<rparr>)) = Inl e) \<and>
   (\<exists>e. agx_emit_alu (example_builder MESA_SHADER_FRAGMENT)
          ((example_alu nir_op_vec3)
             \<lparr>alu_src := (\<lambda>i. (example_alu_src i 1)\<lparr>negate := True\<rparr>)\<rparr>) = Inl e) \<and>
   agx_alu_src_index (example_builder MESA_SHADER_FRAGMENT) (example_alu_src 21 4) =
     Inr (agx_builder_insert (bump_alloc 1 (example_builder MESA_SHADER_FRAGMENT))
            ((agx_alloc_instr AGX_OPCODE_P_EXTRACT)
               \<lparr>dest := agx_get_index 7 32, src := [agx_get_index 21 32], channel := 2\<rparr>),
          agx_get_index 7 32)"
proof -
  let ?b = "example_builder MESA_SHADER_FRAGMENT"
  let ?v = "example_alu nir_op_vec3"
  let ?o = "example_alu (nir_op_other \<lparr>op_name = ''fadd'', num_inputs = 2\<rparr>)"
  let ?m = "?v\<lparr>alu_src := (\<lambda>i. (example_alu_src i 1)\<lparr>negate := True\<rparr>)\<rparr>"
  let ?s = "example_alu_src 21 4"
  have n: "num_inputs (nir_op_infos (alu_op ?v)) = 3"
    by (simp add: example_alu_def nir_op_infos_def)
  have wf: "alu_src_well_formed (example_alu_src i c)" if "c = 1 \<or> c = 4" for i c
    using that
    by (auto simp: alu_src_well_formed_def example_alu_src_def example_src_def
        nir_src_bit_size_def nir_src_num_components_def)
  have h: "alu_op ?v \<in> {nir_op_vec2, nir_op_vec3, nir_op_vec4} \<and>
      def_bit_size (alu_dest ?v) \<in> {16, 32, 64} \<and>
      (\<forall>i < num_inputs (nir_op_infos (alu_op ?v)). alu_src_well_formed (alu_src ?v i))"
    by (simp add: example_alu_def nir_op_infos_def wf)
  have c: "cursor ?b < length (blocks (shader ?b))" "cursor_instructions ?b = []"
    by (simp_all add: example_builder_def example_context_def cursor_instructions_def)
  have comps: "nir_src_num_components (alu_src_src (alu_src ?v i)) = (if i = 1 then 4 else 1)" for i
    by (simp add: example_alu_def example_alu_src_def example_src_def nir_src_num_components_def)
  have idx: "agx_src_index (alu_src_src (alu_src ?v i)) = agx_get_index (20 + i) 32" for i
    by (simp add: example_alu_def example_alu_src_def example_src_def agx_src_index_def
        nir_src_bit_size_def agx_size_for_bits_def)
  have sw: "swizzle (alu_src ?v i) 0 = (if i = 1 then 2 else 0)" for i
    by (simp add: example_alu_def example_alu_src_def)
  have d: "agx_dest_index (alu_dest ?v) = agx_get_index 9 32"
    by (simp add: example_alu_def agx_dest_index_def agx_size_for_bits_def)
  note ex = agx_emit_alu_vec_only [of ?v ?b, THEN conjunct1, THEN mp, OF h]
  from ex obtain E where "\<exists>C. agx_emit_alu ?b ?v = Inr (insert_all (bump_alloc (length E) ?b) (E @ [C])) \<and>
         agx_emit_instr ?b (nir_instr_type_alu ?v) =
           Inr (insert_all (bump_alloc (length E) ?b) (E @ [C])) \<and>
         op C = AGX_OPCODE_P_COMBINE \<and> dest C = agx_dest_index (alu_dest ?v) \<and>
         length (src C) = 4 \<and>
         (\<forall>X \<in> set E. op X = AGX_OPCODE_P_EXTRACT) \<and>
         length E = length (filter (\<lambda>i. 1 < nir_src_num_components (alu_src_src (alu_src ?v i)))
                              [0..<num_inputs (nir_op_infos (alu_op ?v))]) \<and>
         (\<forall>i < 4.
            if num_inputs (nir_op_infos (alu_op ?v)) \<le> i then src C ! i = agx_null
            else if 1 < nir_src_num_components (alu_src_src (alu_src ?v i))
              then (\<exists>X \<in> set E. dest X = src C ! i \<and>
                      src X = [agx_src_index (alu_src_src (alu_src ?v i))] \<and>
                      channel X = swizzle (alu_src ?v i) 0)
              else src C ! i = agx_src_index (alu_src_src (alu_src ?v i))) \<and>
         (cursor ?b < length (blocks (shader ?b)) \<longrightarrow>
            cursor_instructions (insert_all (bump_alloc (length E) ?b) (E @ [C])) =
              cursor_instructions ?b @ E @ [C])" ..
  then obtain C where pc: "agx_emit_alu ?b ?v = Inr (insert_all (bump_alloc (length E) ?b) (E @ [C])) \<and>
         agx_emit_instr ?b (nir_instr_type_alu ?v) =
           Inr (insert_all (bump_alloc (length E) ?b) (E @ [C])) \<and>
         op C = AGX_OPCODE_P_COMBINE \<and> dest C = agx_dest_index (alu_dest ?v) \<and>
         length (src C) = 4 \<and>
         (\<forall>X \<in> set E. op X = AGX_OPCODE_P_EXTRACT) \<and>
         length E = length (filter (\<lambda>i. 1 < nir_src_num_components (alu_src_src (alu_src ?v i)))
                              [0..<num_inputs (nir_op_infos (alu_op ?v))]) \<and>
         (\<forall>i < 4.
            if num_inputs (nir_op_infos (alu_op ?v)) \<le> i then src C ! i = agx_null
            else if 1 < nir_src_num_components (alu_src_src (alu_src ?v i))
              then (\<exists>X \<in> set E. dest X = src C ! i \<and>
                      src X = [agx_src_index (alu_src_src (alu_src ?v i))] \<and>
                      channel X = swizzle (alu_src ?v i) 0)
              else src C ! i = agx_src_index (alu_src_src (alu_src ?v i))) \<and>
         (cursor ?b < length (blocks (shader ?b)) \<longrightarrow>
            cursor_instructions (insert_all (bump_alloc (length E) ?b) (E @ [C])) =
              cursor_instructions ?b @ E @ [C])" ..
  from pc have r: "agx_emit_alu ?b ?v = Inr (insert_all (bump_alloc (length E) ?b) (E @ [C]))"
    and f: "op C = AGX_OPCODE_P_COMBINE" "dest C = agx_dest_index (alu_dest ?v)"
    and x: "\<forall>X \<in> set E. op X = AGX_OPCODE_P_EXTRACT"
    and l: "length E = length (filter (\<lambda>i. 1 < nir_src_num_components (alu_src_src (alu_src ?v i)))
                              [0..<num_inputs (nir_op_infos (alu_op ?v))])"
    and a: "\<forall>i < 4.
            if num_inputs (nir_op_infos (alu_op ?v)) \<le> i then src C ! i = agx_null
            else if 1 < nir_src_num_components (alu_src_src (alu_src ?v i))
              then (\<exists>X \<in> set E. dest X = src C ! i \<and>
                      src X = [agx_src_index (alu_src_src (alu_src ?v i))] \<and>
                      channel X = swizzle (alu_src ?v i) 0)
              else src C ! i = agx_src_index (alu_src_src (alu_src ?v i))"
    and ci0: "cursor ?b < length (blocks (shader ?b)) \<longrightarrow>
            cursor_instructions (insert_all (bump_alloc (length E) ?b) (E @ [C])) =
              cursor_instructions ?b @ E @ [C]"
    by - (elim conjE, assumption)+
  from ci0 c(1) have ci: "cursor_instructions (insert_all (bump_alloc (length E) ?b) (E @ [C])) =
              cursor_instructions ?b @ E @ [C]" ..
  from l have l1: "length E = 1" by (simp add: n comps upt_2_3_4)
  from a have ai: "if num_inputs (nir_op_infos (alu_op ?v)) \<le> i then src C ! i = agx_null
            else if 1 < nir_src_num_components (alu_src_src (alu_src ?v i))
              then (\<exists>X \<in> set E. dest X = src C ! i \<and>
                      src X = [agx_src_index (alu_src_src (alu_src ?v i))] \<and>
                      channel X = swizzle (alu_src ?v i) 0)
              else src C ! i = agx_src_index (alu_src_src (alu_src ?v i))" if "i < 4" for i
    using that by blast
  from ai [of 0] have a0: "src C ! 0 = agx_get_index 20 32"
    by (simp add: n comps idx)
  from ai [of 2] have a2: "src C ! 2 = agx_get_index 22 32"
    by (simp add: n comps idx)
  from ai [of 3] have a3: "src C ! 3 = agx_null"
    by (simp add: n)
  from ai [of 1] have "\<exists>X \<in> set E. dest X = src C ! 1 \<and> src X = [agx_get_index 21 32] \<and> channel X = 2"
    by (simp add: n comps idx sw)
  with x have a1: "\<exists>X \<in> set E. op X = AGX_OPCODE_P_EXTRACT \<and> dest X = src C ! 1 \<and>
             src X = [agx_get_index 21 32] \<and> channel X = 2"
    by blast
  from ci c(2) have ci': "cursor_instructions (insert_all (bump_alloc (length E) ?b) (E @ [C])) = E @ [C]"
    by simp
  from f(2) d have d': "dest C = agx_get_index 9 32" by simp
  have first: "\<exists>E C. agx_emit_alu ?b ?v = Inr (insert_all (bump_alloc (length E) ?b) (E @ [C])) \<and>
          op C = AGX_OPCODE_P_COMBINE \<and> dest C = agx_get_index 9 32 \<and>
          length E = 1 \<and>
          src C ! 0 = agx_get_index 20 32 \<and>
          (\<exists>X \<in> set E. op X = AGX_OPCODE_P_EXTRACT \<and> dest X = src C ! 1 \<and>
             src X = [agx_get_index 21 32] \<and> channel X = 2) \<and>
          src C ! 2 = agx_get_index 22 32 \<and>
          src C ! 3 = agx_null \<and>
          cursor_instructions (insert_all (bump_alloc (length E) ?b) (E @ [C])) = E @ [C]"
    using r f(1) d' l1 a0 a1 a2 a3 ci' by blast
  have "alu_op ?o \<notin> {nir_op_vec2, nir_op_vec3, nir_op_vec4}"
    by (simp add: example_alu_def)
  then have second: "\<exists>e. agx_emit_alu ?b ?o = Inl e"
    by (rule agx_emit_alu_vec_only [of ?o ?b, THEN conjunct2, THEN conjunct1, THEN mp])
  have "0 < num_inputs (nir_op_infos (alu_op ?m)) \<and> (negate (alu_src ?m 0) \<or> src_abs (alu_src ?m 0))"
    by (simp add: example_alu_def nir_op_infos_def)
  then have third: "\<exists>e. agx_emit_alu ?b ?m = Inl e"
    by (rule agx_emit_alu_vec_only [of ?m ?b 0, THEN conjunct2, THEN conjunct2, THEN conjunct1, THEN mp])
  have "alu_src_well_formed ?s" by (simp add: wf)
  then have "agx_alu_src_index ?b ?s =
        (if 1 < nir_src_num_components (alu_src_src ?s)
         then Inr (agx_builder_insert (bump_alloc 1 ?b)
                     ((agx_alloc_instr AGX_OPCODE_P_EXTRACT)
                        \<lparr>dest := agx_get_index (alloc (shader ?b))
                                   (nir_src_bit_size (alu_src_src ?s)),
                         src := [agx_src_index (alu_src_src ?s)],
                         channel := swizzle ?s 0\<rparr>),
                   agx_get_index (alloc (shader ?b)) (nir_src_bit_size (alu_src_src ?s)))
         else Inr (?b, agx_src_index (alu_src_src ?s)))"
    by (rule agx_emit_alu_vec_only [of ?v ?b 0 ?s, THEN conjunct2, THEN conjunct2, THEN conjunct2, THEN mp])
  then have fourth: "agx_alu_src_index ?b ?s =
     Inr (agx_builder_insert (bump_alloc 1 ?b)
            ((agx_alloc_instr AGX_OPCODE_P_EXTRACT)
               \<lparr>dest := agx_get_index 7 32, src := [agx_get_index 21 32], channel := 2\<rparr>),
          agx_get_index 7 32)"
    by (simp add: example_alu_src_def example_src_def nir_src_num_components_def
        nir_src_bit_size_def agx_src_index_def agx_size_for_bits_def example_builder_def
        example_context_def)
  from first second third fourth show ?thesis by blast
qed

subsection \<open>The end of the program and the names of the blocks\<close>

lemma shader_insert_all:
  "cursor b < length (blocks (shader b)) \<Longrightarrow>
   shader (insert_all b E) =
     (shader b)\<lparr>blocks := (blocks (shader b))
        [cursor b := (blocks (shader b) ! cursor b)
           \<lparr>instructions := instructions (blocks (shader b) ! cursor b) @ E\<rparr>]\<rparr>"
proof (induction E arbitrary: b)
  case Nil
  then show ?case by simp
next
  case (Cons I E)
  from Cons.prems have c: "cursor (agx_builder_insert b I) < length (blocks (shader (agx_builder_insert b I)))"
    by simp
  show ?case
    using Cons.prems
    by (simp add: insert_all_Cons Cons.IH [OF c])
       (simp add: agx_builder_insert_def update_cursor_block_def)
qed

lemma funpow_agx_trap:
  "(agx_trap ^^ n) b = insert_all b (replicate n (agx_alloc_instr AGX_OPCODE_TRAP))"
proof (induction n)
  case 0
  then show ?case by simp
next
  case (Suc n)
  have "replicate (Suc n) (agx_alloc_instr AGX_OPCODE_TRAP) =
          replicate n (agx_alloc_instr AGX_OPCODE_TRAP) @ [agx_alloc_instr AGX_OPCODE_TRAP]"
    by (simp add: replicate_append_same)
  with Suc show ?case
    by (simp add: agx_trap_def insert_all_snoc)
qed

lemma length_name_blocks [simp]: "length (name_blocks c bs) = length bs"
  by (induction bs arbitrary: c) simp_all

lemma nth_name_blocks:
  "i < length bs \<Longrightarrow> name_blocks c bs ! i = (bs ! i)\<lparr>name := c + i\<rparr>"
proof (induction bs arbitrary: c i)
  case Nil
  then show ?case by simp
next
  case (Cons b bs)
  then show ?case by (cases i) simp_all
qed

lemma terminate_and_name_blocks:
  assumes "blocks ctx \<noteq> []"
  shows "terminate_and_name ctx =
     Inr (ctx\<lparr>blocks := name_blocks 0
            ((blocks ctx)[length (blocks ctx) - 1 :=
               (last (blocks ctx))\<lparr>instructions := instructions (last (blocks ctx)) @
                  agx_alloc_instr AGX_OPCODE_STOP # replicate 8 (agx_alloc_instr AGX_OPCODE_TRAP)\<rparr>])\<rparr>)"
proof -
  let ?b0 = "agx_init_builder ctx (length (blocks ctx) - 1)"
  let ?E = "agx_alloc_instr AGX_OPCODE_STOP # replicate 8 (agx_alloc_instr AGX_OPCODE_TRAP)"
  from assms have c: "cursor ?b0 < length (blocks (shader ?b0))"
    by (simp add: agx_init_builder_def)
  have "(agx_trap ^^ 8) (agx_stop ?b0) = insert_all ?b0 ?E"
    by (simp only: funpow_agx_trap agx_stop_def insert_all_Cons)
  then have "shader ((agx_trap ^^ 8) (agx_stop ?b0)) =
      ctx\<lparr>blocks := (blocks ctx)[length (blocks ctx) - 1 :=
               (last (blocks ctx))\<lparr>instructions := instructions (last (blocks ctx)) @ ?E\<rparr>]\<rparr>"
    using assms by (simp only: shader_insert_all [OF c]) (simp add: agx_init_builder_def last_conv_nth)
  with assms show ?thesis
    by (simp add: terminate_and_name_def Let_def)
qed

text \<open>
  Claim C8. When the blocks of the first implemented function are built and there is at
  least one block, the driver appends to the last block one stop instruction followed
  by eight trap instructions, leaves the instructions of the other blocks as they are,
  and names the blocks \<open>0, 1, 2, ...\<close> in the order of the block list.
\<close>

theorem agx_compile_shader_nir_epilogue:
  assumes "emit_first_function
             \<lparr>nir = passes nir0, stage = info_stage nir0, key = None, blocks = [], alloc = 0\<rparr>
             (shader_functions (passes nir0)) = Inr ctx1"
    and "blocks ctx1 \<noteq> []"
  shows "\<exists>ctx'. agx_compile_shader_nir passes nir0 = Inr ctx' \<and>
     terminate_and_name ctx1 = Inr ctx' \<and>
     length (blocks ctx') = length (blocks ctx1) \<and>
     instructions (last (blocks ctx')) =
       instructions (last (blocks ctx1)) @
         agx_alloc_instr AGX_OPCODE_STOP # replicate 8 (agx_alloc_instr AGX_OPCODE_TRAP) \<and>
     (\<forall>i. i + 1 < length (blocks ctx1) \<longrightarrow>
        instructions (blocks ctx' ! i) = instructions (blocks ctx1 ! i)) \<and>
     (\<forall>i < length (blocks ctx'). name (blocks ctx' ! i) = i)"
proof -
  let ?E = "agx_alloc_instr AGX_OPCODE_STOP # replicate 8 (agx_alloc_instr AGX_OPCODE_TRAP)"
  let ?n = "length (blocks ctx1)"
  let ?bs = "(blocks ctx1)[?n - 1 :=
               (last (blocks ctx1))\<lparr>instructions := instructions (last (blocks ctx1)) @ ?E\<rparr>]"
  let ?ctx' = "ctx1\<lparr>blocks := name_blocks 0 ?bs\<rparr>"
  have t: "terminate_and_name ctx1 = Inr ?ctx'"
    by (rule terminate_and_name_blocks [OF assms(2)])
  with assms(1) have run: "agx_compile_shader_nir passes nir0 = Inr ?ctx'"
    by (simp add: agx_compile_shader_nir_def)
  have len: "length (blocks ?ctx') = ?n" by simp
  from assms(2) have pos: "?n - 1 < ?n" by simp
  have nth: "blocks ?ctx' ! i = (?bs ! i)\<lparr>name := i\<rparr>" if "i < ?n" for i
    using that by (simp add: nth_name_blocks)
  have lst: "instructions (last (blocks ?ctx')) = instructions (last (blocks ctx1)) @ ?E"
  proof -
    from assms(2) have "length (blocks ?ctx') \<noteq> 0" by simp
    then have "blocks ?ctx' \<noteq> []" by (simp only: length_0_conv not_False_eq_True)
    then have "last (blocks ?ctx') = blocks ?ctx' ! (?n - 1)"
      by (simp add: last_conv_nth)
    also have "\<dots> = (?bs ! (?n - 1))\<lparr>name := ?n - 1\<rparr>" by (rule nth [OF pos])
    finally show ?thesis using pos by simp
  qed
  have oth: "\<forall>i. i + 1 < ?n \<longrightarrow> instructions (blocks ?ctx' ! i) = instructions (blocks ctx1 ! i)"
  proof (intro allI impI)
    fix i assume i: "i + 1 < ?n"
    then have "i < ?n" "i \<noteq> ?n - 1" by simp_all
    with nth [of i] show "instructions (blocks ?ctx' ! i) = instructions (blocks ctx1 ! i)"
      by simp
  qed
  have nam: "\<forall>i < length (blocks ?ctx'). name (blocks ?ctx' ! i) = i"
    using nth by simp
  from run t len lst oth nam show ?thesis by blast
qed

theorem agx_compile_shader_nir_epilogue_witness:
  "\<exists>ctx'. agx_compile_shader_nir (\<lambda>s. s) example_program = Inr ctx' \<and>
     length (blocks ctx') = 2 \<and>
     instructions (last (blocks ctx')) =
       agx_alloc_instr AGX_OPCODE_STOP # replicate 8 (agx_alloc_instr AGX_OPCODE_TRAP) \<and>
     map op (instructions (blocks ctx' ! 0)) = [AGX_OPCODE_MOV_IMM] \<and>
     name (blocks ctx' ! 0) = 0 \<and> name (blocks ctx' ! 1) = 1"
proof -
  let ?M = "(agx_alloc_instr AGX_OPCODE_MOV_IMM)\<lparr>dest := agx_get_index 3 32, imm := 0x12345\<rparr>"
  let ?ctx1 = "\<lparr>nir = example_program, stage = MESA_SHADER_FRAGMENT, key = None,
                blocks = [\<lparr>name = 0, predecessors = [], instructions = [?M]\<rparr>,
                          \<lparr>name = 0, predecessors = [], instructions = []\<rparr>],
                alloc = 4\<rparr>"
  have e: "emit_first_function
             \<lparr>nir = (\<lambda>s. s) example_program, stage = info_stage example_program, key = None,
              blocks = [], alloc = 0\<rparr>
             (shader_functions ((\<lambda>s. s) example_program)) = Inr ?ctx1"
    by (simp add: example_program_def example_load_const_def emit_cf_list_def emit_block_def
        agx_create_block_def agx_init_builder_def agx_emit_instr_def agx_emit_load_const_def
        agx_mov_imm_to_def agx_builder_insert_def update_cursor_block_def
        nir_const_value_as_uint_def agx_size_for_bits_def Let_def)
  have n: "blocks ?ctx1 \<noteq> []" by simp
  from agx_compile_shader_nir_epilogue [where passes = "\<lambda>s. s" and ?nir0.0 = example_program, OF e n]
  obtain ctx' where pc: "agx_compile_shader_nir (\<lambda>s. s) example_program = Inr ctx' \<and>
     terminate_and_name ?ctx1 = Inr ctx' \<and>
     length (blocks ctx') = length (blocks ?ctx1) \<and>
     instructions (last (blocks ctx')) =
       instructions (last (blocks ?ctx1)) @
         agx_alloc_instr AGX_OPCODE_STOP # replicate 8 (agx_alloc_instr AGX_OPCODE_TRAP) \<and>
     (\<forall>i. i + 1 < length (blocks ?ctx1) \<longrightarrow>
        instructions (blocks ctx' ! i) = instructions (blocks ?ctx1 ! i)) \<and>
     (\<forall>i < length (blocks ctx'). name (blocks ctx' ! i) = i)" ..
  from pc have r: "agx_compile_shader_nir (\<lambda>s. s) example_program = Inr ctx'"
    and l: "length (blocks ctx') = length (blocks ?ctx1)"
    and i: "instructions (last (blocks ctx')) =
       instructions (last (blocks ?ctx1)) @
         agx_alloc_instr AGX_OPCODE_STOP # replicate 8 (agx_alloc_instr AGX_OPCODE_TRAP)"
    and o: "\<forall>i. i + 1 < length (blocks ?ctx1) \<longrightarrow>
        instructions (blocks ctx' ! i) = instructions (blocks ?ctx1 ! i)"
    and m: "\<forall>i < length (blocks ctx'). name (blocks ctx' ! i) = i"
    by - (elim conjE, assumption)+
  from l have l2: "length (blocks ctx') = 2" by simp
  from i have i2: "instructions (last (blocks ctx')) =
       agx_alloc_instr AGX_OPCODE_STOP # replicate 8 (agx_alloc_instr AGX_OPCODE_TRAP)" by simp
  from o have "0 + 1 < length (blocks ?ctx1) \<longrightarrow>
        instructions (blocks ctx' ! 0) = instructions (blocks ?ctx1 ! 0)" ..
  then have "instructions (blocks ctx' ! 0) = [?M]" by simp
  then have o2: "map op (instructions (blocks ctx' ! 0)) = [AGX_OPCODE_MOV_IMM]"
    by (simp add: agx_alloc_instr_def)
  from m l2 have m': "\<And>i. i < 2 \<Longrightarrow> name (blocks ctx' ! i) = i" by simp
  have m2: "name (blocks ctx' ! 0) = 0" "name (blocks ctx' ! 1) = 1"
    using m' [of 0] m' [of 1] by simp_all
  show ?thesis
    by (intro exI [of _ ctx'] conjI) (rule r l2 i2 o2 m2)+
qed

subsection \<open>What a successful selection does to the builder\<close>

text \<open>
  Every successful selection takes some registers from the counter and inserts some
  instructions at the cursor, and does nothing else.
\<close>

lemma agx_alu_src_index_shape:
  "agx_alu_src_index b s = Inr (b', x) \<Longrightarrow> \<exists>E. b' = insert_all (bump_alloc (length E) b) E"
proof -
  assume r: "agx_alu_src_index b s = Inr (b', x)"
  let ?X = "(agx_alloc_instr AGX_OPCODE_P_EXTRACT)
              \<lparr>dest := agx_get_index (alloc (shader b)) (agx_index_size (agx_src_index (alu_src_src s))),
               src := [agx_src_index (alu_src_src s)], channel := swizzle s 0\<rparr>"
  from r have "b' = b \<or> b' = agx_builder_insert (bump_alloc 1 b) ?X"
    by (auto simp: agx_alu_src_index_def agx_p_extract_def agx_p_extract_to_def Let_def
        bump_alloc_def split: if_splits)
  then show ?thesis
  proof
    assume "b' = b"
    then have "b' = insert_all (bump_alloc (length []) b) []" by simp
    then show ?thesis ..
  next
    assume "b' = agx_builder_insert (bump_alloc 1 b) ?X"
    then have "b' = insert_all (bump_alloc (length [?X]) b) [?X]"
      by (simp add: insert_all_Cons)
    then show ?thesis ..
  qed
qed

lemma alu_src_or_null_shape:
  "alu_src_or_null b instr n i = Inr (b', x) \<Longrightarrow> \<exists>E. b' = insert_all (bump_alloc (length E) b) E"
proof (cases "i < n")
  case True
  assume "alu_src_or_null b instr n i = Inr (b', x)"
  with True show ?thesis by (simp add: alu_src_or_null_def agx_alu_src_index_shape)
next
  case False
  assume "alu_src_or_null b instr n i = Inr (b', x)"
  with False have "b' = insert_all (bump_alloc (length []) b) []"
    by (simp add: alu_src_or_null_def)
  then show ?thesis ..
qed

lemma agx_emit_alu_shape:
  assumes "agx_emit_alu b instr = Inr b'"
  shows "\<exists>n E. b' = insert_all (bump_alloc n b) E"
proof -
  let ?n = "num_inputs (nir_op_infos (alu_op instr))"
  from agx_emit_alu_Inr_steps [OF assms]
  obtain b0 s0 b1 s1 b2 s2 b3 s3 where
    r: "alu_src_or_null b instr ?n 0 = Inr (b0, s0)" "alu_src_or_null b0 instr ?n 1 = Inr (b1, s1)"
       "alu_src_or_null b1 instr ?n 2 = Inr (b2, s2)" "alu_src_or_null b2 instr ?n 3 = Inr (b3, s3)"
    and v: "alu_op instr \<in> {nir_op_vec2, nir_op_vec3, nir_op_vec4}"
    by blast
  let ?C = "(agx_alloc_instr AGX_OPCODE_P_COMBINE)
              \<lparr>dest := agx_dest_index (alu_dest instr), src := [s0, s1, s2, s3]\<rparr>"
  from assms r v have fin: "b' = agx_builder_insert b3 ?C"
    by (auto simp: agx_emit_alu_def Let_def agx_p_combine_to_def split: if_splits)
  from alu_src_or_null_shape [OF r(1)] obtain E0 where e0: "b0 = insert_all (bump_alloc (length E0) b) E0" ..
  from alu_src_or_null_shape [OF r(2)] obtain E1 where e1: "b1 = insert_all (bump_alloc (length E1) b0) E1" ..
  from alu_src_or_null_shape [OF r(3)] obtain E2 where e2: "b2 = insert_all (bump_alloc (length E2) b1) E2" ..
  from alu_src_or_null_shape [OF r(4)] obtain E3 where e3: "b3 = insert_all (bump_alloc (length E3) b2) E3" ..
  have "b3 = insert_all (bump_alloc (length E0 + length E1 + length E2 + length E3) b) (E0 @ E1 @ E2 @ E3)"
    by (simp add: e0 e1 e2 e3 insert_all_step)
  with fin have "b' = insert_all (bump_alloc (length E0 + length E1 + length E2 + length E3) b)
                        ((E0 @ E1 @ E2 @ E3) @ [?C])"
    by (simp only: insert_all_snoc)
  then show ?thesis by blast
qed

lemma agx_emit_instr_shape:
  assumes "agx_emit_instr b instr = Inr b'"
  shows "\<exists>n E. b' = insert_all (bump_alloc n b) E"
proof -
  have one: "\<exists>n E. b' = insert_all (bump_alloc n b) E" if "b' = insert_all b E" for E
  proof -
    from that have "b' = insert_all (bump_alloc 0 b) E" by simp
    then show ?thesis by blast
  qed
  show ?thesis
  proof (cases instr)
    case (nir_instr_type_alu a)
    with assms show ?thesis by (simp add: agx_emit_instr_def agx_emit_alu_shape)
  next
    case (nir_instr_type_load_const lc)
    with assms have "\<exists>I. b' = insert_all b [I]"
      by (auto simp: agx_emit_instr_def agx_emit_load_const_def agx_mov_imm_to_def Let_def
          insert_all_Cons split: if_splits)
    with one show ?thesis by blast
  next
    case (nir_instr_type_intrinsic i)
    with assms have r: "agx_emit_intrinsic b i = Inr b'" by (simp add: agx_emit_instr_def)
    then have "b' = insert_all b [] \<or> (\<exists>I. b' = insert_all b [I]) \<or>
        (\<exists>I1 I2 I3. b' = insert_all b [I1, I2, I3])"
      by (cases "intrinsic i")
         (auto simp: agx_emit_intrinsic_def agx_emit_load_attr_def Let_def insert_all_Cons
            split: if_splits
            dest: agx_emit_load_vary_inserts agx_emit_store_vary_inserts
                  agx_emit_fragment_out_inserts)
    with one show ?thesis by blast
  qed (use assms in \<open>simp_all add: agx_emit_instr_def agx_emit_tex_def agx_emit_jump_def\<close>)
qed

lemma emit_block_instrs_shape:
  "emit_block_instrs b is = Inr b' \<Longrightarrow> \<exists>n E. b' = insert_all (bump_alloc n b) E"
proof (induction "is" arbitrary: b)
  case Nil
  then have "b' = insert_all (bump_alloc 0 b) []" by simp
  then show ?case by blast
next
  case (Cons i "is")
  from Cons.prems obtain b1 where 1: "agx_emit_instr b i = Inr b1"
    and 2: "emit_block_instrs b1 is = Inr b'"
    by (auto split: sum.splits)
  from agx_emit_instr_shape [OF 1] obtain n E where b1: "b1 = insert_all (bump_alloc n b) E" by blast
  from Cons.IH [OF 2] obtain m F where "b' = insert_all (bump_alloc m b1) F" by blast
  with b1 have "b' = insert_all (bump_alloc (n + m) b) (E @ F)"
    by (simp add: insert_all_step)
  then show ?case by blast
qed

subsection \<open>Supported instructions are selected\<close>

lemma supported_cong:
  "nir c' = nir c \<Longrightarrow> stage c' = stage c \<Longrightarrow> key c' = key c \<Longrightarrow>
   supported c' instr = supported c instr"
  by (cases instr) (simp_all add: supported_def)

lemma supported_shape [simp]:
  "supported (shader (insert_all (bump_alloc n b) E)) instr = supported (shader b) instr"
  by (rule supported_cong) (simp_all add: insert_all_bump_alloc)

lemma supported_intrinsic:
  assumes "supported (shader b) (nir_instr_type_intrinsic i)"
  shows "\<exists>b'. agx_emit_intrinsic b i = Inr b'"
proof -
  from assms consider
      (bary) "intrinsic i \<in> {nir_intrinsic_load_barycentric_pixel,
            nir_intrinsic_load_barycentric_centroid, nir_intrinsic_load_barycentric_sample,
            nir_intrinsic_load_barycentric_at_sample, nir_intrinsic_load_barycentric_at_offset}"
    | (load) "intrinsic i = nir_intrinsic_load_interpolated_input"
        "stage (shader b) = MESA_SHADER_FRAGMENT"
        "parent_instr (intr_src i 0) = parent_intrinsic nir_intrinsic_load_barycentric_pixel"
        "nir_src_is_const (intr_src i 1)"
    | (vstore) "intrinsic i = nir_intrinsic_store_output" "stage (shader b) = MESA_SHADER_VERTEX"
        "nir_src_is_const (intr_src i 1)" "nir_intrinsic_write_mask i = 1"
    | (fstore) var k where "intrinsic i = nir_intrinsic_store_output"
        "stage (shader b) = MESA_SHADER_FRAGMENT" "key (shader b) = Some k"
        "nir_find_variable_with_driver_location (nir (shader b)) nir_var_shader_out
           (nir_intrinsic_base i) = Some var"
        "var_index var = 0"
        "location var = FRAG_RESULT_COLOR \<or> location var = FRAG_RESULT_DATA0"
    by (auto simp: supported_def split: option.splits)
  then show ?thesis
  proof cases
    case bary
    then show ?thesis by (auto simp: agx_emit_intrinsic_def)
  next
    case load
    then show ?thesis
      by (simp add: agx_emit_intrinsic_def agx_emit_load_vary_def nir_src_as_intrinsic_def
          nir_get_io_offset_src_def Let_def)
  next
    case vstore
    then show ?thesis
      by (simp add: agx_emit_intrinsic_def agx_emit_store_vary_def nir_get_io_offset_src_def
          Let_def)
  next
    case fstore
    then show ?thesis
      by (auto simp: agx_emit_intrinsic_def agx_emit_fragment_out_def agx_writeout_def Let_def)
  qed
qed

lemma supported_emit:
  assumes "supported (shader b) instr"
  shows "\<exists>b'. agx_emit_instr b instr = Inr b'"
proof (cases instr)
  case (nir_instr_type_alu a)
  with assms have "alu_op a \<in> {nir_op_vec2, nir_op_vec3, nir_op_vec4}"
    "def_bit_size (alu_dest a) \<in> {16, 32, 64}"
    "\<forall>i < num_inputs (nir_op_infos (alu_op a)). alu_src_well_formed (alu_src a i)"
    by (simp_all add: supported_def)
  from agx_emit_alu_combine [OF this, of b] nir_instr_type_alu show ?thesis
    by (auto simp: agx_emit_instr_def)
next
  case (nir_instr_type_load_const lc)
  with assms show ?thesis
    by (auto simp: supported_def agx_emit_instr_def agx_emit_load_const_def)
next
  case (nir_instr_type_intrinsic i)
  with assms supported_intrinsic [of b i] show ?thesis
    by (simp add: agx_emit_instr_def)
qed (use assms in \<open>simp_all add: supported_def\<close>)

lemma supported_emit_block_instrs:
  "\<forall>i \<in> set is. supported (shader b) i \<Longrightarrow> \<exists>b'. emit_block_instrs b is = Inr b'"
proof (induction "is" arbitrary: b)
  case Nil
  then show ?case by simp
next
  case (Cons i "is")
  from Cons.prems supported_emit [of b i] obtain b1 where 1: "agx_emit_instr b i = Inr b1"
    by auto
  from agx_emit_instr_shape [OF 1] obtain n E where "b1 = insert_all (bump_alloc n b) E" by blast
  with Cons.prems have "\<forall>i \<in> set is. supported (shader b1) i" by simp
  from Cons.IH [OF this] 1 show ?case by simp
qed

subsection \<open>Blocks\<close>

lemma emit_block_shape:
  assumes "emit_block ctx is = Inr (c', blk_id)"
  shows "blk_id = length (blocks ctx) \<and>
    (\<exists>n E. c' = ctx\<lparr>blocks := blocks ctx @ [\<lparr>name = 0, predecessors = [], instructions = E\<rparr>],
                    alloc := alloc ctx + n\<rparr>)"
proof -
  let ?blk = "\<lparr>name = 0, predecessors = [], instructions = []\<rparr>"
  let ?b0 = "\<lparr>shader = ctx\<lparr>blocks := blocks ctx @ [?blk]\<rparr>, cursor = length (blocks ctx)\<rparr>"
  from assms obtain b' where r: "emit_block_instrs ?b0 is = Inr b'" and c': "c' = shader b'"
    and i: "blk_id = length (blocks ctx)"
    by (auto simp: emit_block_def agx_create_block_def agx_init_builder_def Let_def
        split: sum.splits)
  from emit_block_instrs_shape [OF r] obtain n E where "b' = insert_all (bump_alloc n ?b0) E"
    by blast
  then have b': "b' = bump_alloc n (insert_all ?b0 E)" by (simp add: insert_all_bump_alloc)
  have c: "cursor ?b0 < length (blocks (shader ?b0))" by simp
  have "c' = ctx\<lparr>blocks := blocks ctx @ [\<lparr>name = 0, predecessors = [], instructions = E\<rparr>],
                alloc := alloc ctx + n\<rparr>"
    unfolding c' b' by (simp add: bump_alloc_def shader_insert_all [OF c])
  with i show ?thesis by blast
qed

lemma supported_emit_block:
  assumes "\<forall>i \<in> set is. supported ctx i"
  shows "\<exists>c'. emit_block ctx is = Inr (c', length (blocks ctx))"
proof -
  let ?b0 = "agx_init_builder (ctx\<lparr>blocks := blocks ctx @ [(agx_create_block ctx)\<lparr>instructions := []\<rparr>]\<rparr>)
               (length (blocks ctx))"
  have "supported (shader ?b0) i = supported ctx i" for i
    by (rule supported_cong) (simp_all add: agx_init_builder_def)
  with assms have "\<forall>i \<in> set is. supported (shader ?b0) i" by simp
  from supported_emit_block_instrs [OF this] obtain b' where "emit_block_instrs ?b0 is = Inr b'" ..
  then show ?thesis by (simp add: emit_block_def Let_def)
qed

text \<open>
  The instructions of a block are selected one after the other, each from the builder
  that the one before it has left, and each only appends to the block of the cursor.
\<close>

lemma emit_block_instrs_trace:
  assumes "emit_block_instrs b is = Inr b'"
    and "cursor b < length (blocks (shader b))"
  shows "\<exists>tr. length tr = length is + 1 \<and> tr ! 0 = b \<and> tr ! length is = b' \<and>
     (\<forall>j < length is. agx_emit_instr (tr ! j) (is ! j) = Inr (tr ! Suc j) \<and>
        (\<exists>E. cursor_instructions (tr ! Suc j) = cursor_instructions (tr ! j) @ E))"
  using assms
proof (induction "is" arbitrary: b)
  case Nil
  then have "length [b] = length ([] :: nir_instr list) + 1 \<and> [b] ! 0 = b \<and>
     [b] ! length ([] :: nir_instr list) = b'" by simp
  then show ?case by (intro exI [of _ "[b]"]) simp
next
  case (Cons i "is")
  from Cons.prems(1) obtain b1 where 1: "agx_emit_instr b i = Inr b1"
    and 2: "emit_block_instrs b1 is = Inr b'"
    by (auto split: sum.splits)
  from agx_emit_instr_shape [OF 1] obtain n E where b1: "b1 = insert_all (bump_alloc n b) E"
    by blast
  with Cons.prems(2) have c1: "cursor b1 < length (blocks (shader b1))" by simp
  from b1 Cons.prems(2) have app: "cursor_instructions b1 = cursor_instructions b @ E"
    by (simp add: cursor_instructions_insert_all)
  from Cons.IH [OF 2 c1] obtain tr where tr: "length tr = length is + 1" "tr ! 0 = b1"
    "tr ! length is = b'"
    "\<forall>j < length is. agx_emit_instr (tr ! j) (is ! j) = Inr (tr ! Suc j) \<and>
        (\<exists>E. cursor_instructions (tr ! Suc j) = cursor_instructions (tr ! j) @ E)"
    by blast
  have step: "agx_emit_instr ((b # tr) ! j) ((i # is) ! j) = Inr ((b # tr) ! Suc j) \<and>
        (\<exists>E. cursor_instructions ((b # tr) ! Suc j) = cursor_instructions ((b # tr) ! j) @ E)"
    if "j < length (i # is)" for j
  proof (cases j)
    case 0
    with 1 tr(2) app show ?thesis by auto
  next
    case (Suc k)
    with that have "k < length is" by simp
    with tr(4) Suc show ?thesis by simp
  qed
  from tr(1,3) have "length (b # tr) = length (i # is) + 1 \<and> (b # tr) ! 0 = b \<and>
     (b # tr) ! length (i # is) = b'" by simp
  with step show ?case by (intro exI [of _ "b # tr"]) blast
qed

lemma emit_block_trace:
  assumes "emit_block c is = Inr (c', blk_id)"
  shows "blk_id = length (blocks c) \<and>
    (\<exists>tr. length tr = length is + 1 \<and>
       tr ! 0 = agx_init_builder
                  (c\<lparr>blocks := blocks c @ [(agx_create_block c)\<lparr>instructions := []\<rparr>]\<rparr>)
                  (length (blocks c)) \<and>
       shader (tr ! length is) = c' \<and>
       (\<forall>j < length is. agx_emit_instr (tr ! j) (is ! j) = Inr (tr ! Suc j) \<and>
          (\<exists>E. cursor_instructions (tr ! Suc j) = cursor_instructions (tr ! j) @ E)))"
proof -
  let ?b0 = "agx_init_builder
               (c\<lparr>blocks := blocks c @ [(agx_create_block c)\<lparr>instructions := []\<rparr>]\<rparr>)
               (length (blocks c))"
  from assms obtain b' where r: "emit_block_instrs ?b0 is = Inr b'" and c': "c' = shader b'"
    and i: "blk_id = length (blocks c)"
    by (auto simp: emit_block_def Let_def split: sum.splits)
  have cur: "cursor ?b0 < length (blocks (shader ?b0))"
    by (simp add: agx_init_builder_def)
  from emit_block_instrs_trace [OF r cur] c' i show ?thesis by blast
qed

text \<open>A list of block nodes: one block for each node, at the end of the block list.\<close>

lemma emit_cf_list_from_blocks:
  assumes "emit_cf_list_from ctx start (map nir_cf_node_block bs) = Inr (ctx', start')"
  shows "length (blocks ctx') = length (blocks ctx) + length bs \<and>
     take (length (blocks ctx)) (blocks ctx') = blocks ctx \<and>
     nir ctx' = nir ctx \<and> stage ctx' = stage ctx \<and> key ctx' = key ctx \<and>
     start' = (case start of Some s \<Rightarrow> Some s
               | None \<Rightarrow> if bs = [] then None else Some (length (blocks ctx))) \<and>
     (\<forall>k < length bs. \<exists>c c'. nir c = nir ctx \<and> stage c = stage ctx \<and> key c = key ctx \<and>
         blocks c = take (length (blocks ctx) + k) (blocks ctx') \<and>
         emit_block c (bs ! k) = Inr (c', length (blocks ctx) + k) \<and>
         blocks c' = take (length (blocks ctx) + k + 1) (blocks ctx'))"
  using assms
proof (induction bs arbitrary: ctx start)
  case Nil
  then show ?case by (auto split: option.splits)
next
  case (Cons b bs)
  let ?n = "length (blocks ctx)"
  from Cons.prems obtain c1 id1 where 1: "emit_block ctx b = Inr (c1, id1)"
    and 2: "emit_cf_list_from c1 (if start = None then Some id1 else start)
              (map nir_cf_node_block bs) = Inr (ctx', start')"
    by (auto split: sum.splits)
  from emit_block_shape [OF 1] obtain n E where id1: "id1 = ?n"
    and c1: "c1 = ctx\<lparr>blocks := blocks ctx @ [\<lparr>name = 0, predecessors = [], instructions = E\<rparr>],
                      alloc := alloc ctx + n\<rparr>"
    by blast
  from c1 have f1: "nir c1 = nir ctx" "stage c1 = stage ctx" "key c1 = key ctx"
    "length (blocks c1) = ?n + 1" "take ?n (blocks c1) = blocks ctx"
    by simp_all
  note ih = Cons.IH [OF 2]
  from ih have len: "length (blocks ctx') = length (blocks c1) + length bs"
    and tk: "take (length (blocks c1)) (blocks ctx') = blocks c1"
    and fr: "nir ctx' = nir c1" "stage ctx' = stage c1" "key ctx' = key c1"
    and st: "start' = (case (if start = None then Some id1 else start) of Some s \<Rightarrow> Some s
               | None \<Rightarrow> if bs = [] then None else Some (length (blocks c1)))"
    and rest: "\<forall>k < length bs. \<exists>c c'. nir c = nir c1 \<and> stage c = stage c1 \<and> key c = key c1 \<and>
         blocks c = take (length (blocks c1) + k) (blocks ctx') \<and>
         emit_block c (bs ! k) = Inr (c', length (blocks c1) + k) \<and>
         blocks c' = take (length (blocks c1) + k + 1) (blocks ctx')"
    by blast+
  from len f1(4) have len': "length (blocks ctx') = ?n + length (b # bs)" by simp
  have "take ?n (blocks ctx') = take ?n (take (?n + 1) (blocks ctx'))" by simp
  with tk f1(4,5) have tk': "take ?n (blocks ctx') = blocks ctx" by simp
  from tk f1(4) have tk1: "take (?n + 1) (blocks ctx') = blocks c1" by simp
  from fr f1(1-3) have fr': "nir ctx' = nir ctx" "stage ctx' = stage ctx" "key ctx' = key ctx"
    by simp_all
  from st id1 have st': "start' = (case start of Some s \<Rightarrow> Some s
               | None \<Rightarrow> if b # bs = [] then None else Some ?n)"
    by (simp split: option.splits)
  have each: "\<exists>c c'. nir c = nir ctx \<and> stage c = stage ctx \<and> key c = key ctx \<and>
         blocks c = take (?n + k) (blocks ctx') \<and>
         emit_block c ((b # bs) ! k) = Inr (c', ?n + k) \<and>
         blocks c' = take (?n + k + 1) (blocks ctx')" if "k < length (b # bs)" for k
  proof (cases k)
    case 0
    from 1 id1 tk' tk1 have "nir ctx = nir ctx \<and> stage ctx = stage ctx \<and> key ctx = key ctx \<and>
         blocks ctx = take (?n + 0) (blocks ctx') \<and>
         emit_block ctx ((b # bs) ! 0) = Inr (c1, ?n + 0) \<and>
         blocks c1 = take (?n + 0 + 1) (blocks ctx')" by simp
    with 0 show ?thesis by blast
  next
    case (Suc j)
    with that have "j < length bs" by simp
    with rest obtain c c' where "nir c = nir c1" "stage c = stage c1" "key c = key c1"
         "blocks c = take (length (blocks c1) + j) (blocks ctx')"
         "emit_block c (bs ! j) = Inr (c', length (blocks c1) + j)"
         "blocks c' = take (length (blocks c1) + j + 1) (blocks ctx')"
      by blast
    with f1 Suc have "nir c = nir ctx \<and> stage c = stage ctx \<and> key c = key ctx \<and>
         blocks c = take (?n + k) (blocks ctx') \<and>
         emit_block c ((b # bs) ! k) = Inr (c', ?n + k) \<and>
         blocks c' = take (?n + k + 1) (blocks ctx')" by simp
    then show ?thesis by blast
  qed
  from len' tk' fr' st' each show ?case by blast
qed

lemma supported_emit_cf_list_from:
  "\<forall>is \<in> set bs. \<forall>i \<in> set is. supported ctx i \<Longrightarrow>
   \<exists>r. emit_cf_list_from ctx start (map nir_cf_node_block bs) = Inr r"
proof (induction bs arbitrary: ctx start)
  case Nil
  then show ?case by simp
next
  case (Cons b bs)
  from Cons.prems have "\<forall>i \<in> set b. supported ctx i" by simp
  from supported_emit_block [OF this] obtain c1 where 1: "emit_block ctx b = Inr (c1, length (blocks ctx))" ..
  from emit_block_shape [OF 1] obtain n E where
    "c1 = ctx\<lparr>blocks := blocks ctx @ [\<lparr>name = 0, predecessors = [], instructions = E\<rparr>],
              alloc := alloc ctx + n\<rparr>" by blast
  then have "supported c1 i = supported ctx i" for i
    by (intro supported_cong) simp_all
  with Cons.prems have "\<forall>is \<in> set bs. \<forall>i \<in> set is. supported c1 i" by simp
  from Cons.IH [OF this] 1 show ?case by simp
qed

lemma emit_cf_list_from_not_block:
  "nir_cf_node_if \<in> set nodes \<or> nir_cf_node_loop \<in> set nodes \<or> nir_cf_node_function \<in> set nodes \<Longrightarrow>
   \<exists>e. emit_cf_list_from ctx start nodes = Inl e"
proof (induction nodes arbitrary: ctx start)
  case Nil
  then show ?case by simp
next
  case (Cons node nodes)
  show ?case
  proof (cases node)
    case (nir_cf_node_block blk)
    with Cons.prems have rest: "nir_cf_node_if \<in> set nodes \<or> nir_cf_node_loop \<in> set nodes \<or>
        nir_cf_node_function \<in> set nodes" by auto
    show ?thesis
    proof (cases "emit_block ctx blk")
      case (Inl e)
      with nir_cf_node_block show ?thesis by simp
    next
      case (Inr r)
      obtain c1 id1 where "r = (c1, id1)" by (cases r)
      with Inr nir_cf_node_block Cons.IH [OF rest] show ?thesis by simp
    qed
  qed (simp_all add: emit_if_def emit_loop_def)
qed

text \<open>
  Claim C7, as stated, fails: a list of one block node whose block holds a texture
  instruction consists of straight-line block nodes only, and the builder ends in an
  error instead of returning a block.
\<close>

theorem emit_cf_list_block_with_tex_fatal:
  "emit_cf_list (example_context MESA_SHADER_FRAGMENT) [nir_cf_node_block [nir_instr_type_tex]] =
     Inl (Unreachable ''stub'')"
  by (simp add: emit_cf_list_def emit_block_def agx_emit_instr_def agx_emit_tex_def Let_def)

text \<open>
  Claim C7, amended. For a control-flow list of block nodes only: if every instruction
  of every block is supported, the builder returns; and whenever it returns, it has
  added exactly one block for each node at the end of the block list of the context, in
  the order of the nodes, has left the blocks that were there as they are, and returns
  the position of the first block it added (no block for the empty list). The block of
  node \<open>k\<close> is the one that \<open>emit_block\<close> adds for the instructions of that node, after
  the blocks of the nodes before it. A list with a conditional node, a loop node or a
  node of another kind ends in an error. The last part is the order within a block:
  \<open>emit_block\<close> selects the instructions of the block one after the other, each from
  the builder that the one before it has left, starting from a new empty block at the
  end of the list, and each selection only appends to that block.
\<close>

theorem emit_cf_list_one_block_per_node:
  "(emit_cf_list ctx (map nir_cf_node_block bs) = Inr (ctx', start) \<longrightarrow>
      length (blocks ctx') = length (blocks ctx) + length bs \<and>
      take (length (blocks ctx)) (blocks ctx') = blocks ctx \<and>
      start = (if bs = [] then None else Some (length (blocks ctx))) \<and>
      (\<forall>k < length bs. \<exists>c c'. nir c = nir ctx \<and> stage c = stage ctx \<and> key c = key ctx \<and>
         blocks c = take (length (blocks ctx) + k) (blocks ctx') \<and>
         emit_block c (bs ! k) = Inr (c', length (blocks ctx) + k) \<and>
         blocks c' = take (length (blocks ctx) + k + 1) (blocks ctx'))) \<and>
   ((\<forall>is \<in> set bs. \<forall>i \<in> set is. supported ctx i) \<longrightarrow>
      (\<exists>r. emit_cf_list ctx (map nir_cf_node_block bs) = Inr r)) \<and>
   (nir_cf_node_if \<in> set nodes \<or> nir_cf_node_loop \<in> set nodes \<or>
    nir_cf_node_function \<in> set nodes \<longrightarrow>
      (\<exists>e. emit_cf_list ctx nodes = Inl e)) \<and>
   (emit_block c is = Inr (c1, blk_id) \<longrightarrow>
      blk_id = length (blocks c) \<and>
      (\<exists>tr. length tr = length is + 1 \<and>
         tr ! 0 = agx_init_builder
                    (c\<lparr>blocks := blocks c @ [(agx_create_block c)\<lparr>instructions := []\<rparr>]\<rparr>)
                    (length (blocks c)) \<and>
         shader (tr ! length is) = c1 \<and>
         (\<forall>j < length is. agx_emit_instr (tr ! j) (is ! j) = Inr (tr ! Suc j) \<and>
            (\<exists>E. cursor_instructions (tr ! Suc j) = cursor_instructions (tr ! j) @ E))))"
proof (intro conjI impI)
  assume r: "emit_cf_list ctx (map nir_cf_node_block bs) = Inr (ctx', start)"
  then have "emit_cf_list_from ctx None (map nir_cf_node_block bs) = Inr (ctx', start)"
    by (simp add: emit_cf_list_def)
  note f = emit_cf_list_from_blocks [OF this]
  from f show "length (blocks ctx') = length (blocks ctx) + length bs" by (rule conjunct1)
  from f show "take (length (blocks ctx)) (blocks ctx') = blocks ctx"
    by (elim conjE)
  from f have "start = (case None of Some s \<Rightarrow> Some s
               | None \<Rightarrow> if bs = [] then None else Some (length (blocks ctx)))"
    by (elim conjE)
  then show "start = (if bs = [] then None else Some (length (blocks ctx)))" by simp
  from f show "\<forall>k < length bs. \<exists>c c'. nir c = nir ctx \<and> stage c = stage ctx \<and> key c = key ctx \<and>
         blocks c = take (length (blocks ctx) + k) (blocks ctx') \<and>
         emit_block c (bs ! k) = Inr (c', length (blocks ctx) + k) \<and>
         blocks c' = take (length (blocks ctx) + k + 1) (blocks ctx')"
    by (elim conjE)
next
  assume "\<forall>is \<in> set bs. \<forall>i \<in> set is. supported ctx i"
  from supported_emit_cf_list_from [OF this, of None]
  show "\<exists>r. emit_cf_list ctx (map nir_cf_node_block bs) = Inr r"
    by (simp add: emit_cf_list_def)
next
  assume "nir_cf_node_if \<in> set nodes \<or> nir_cf_node_loop \<in> set nodes \<or>
    nir_cf_node_function \<in> set nodes"
  from emit_cf_list_from_not_block [OF this, of ctx None]
  show "\<exists>e. emit_cf_list ctx nodes = Inl e"
    by (simp add: emit_cf_list_def)
next
  assume e: "emit_block c is = Inr (c1, blk_id)"
  from emit_block_trace [OF e] show "blk_id = length (blocks c)" by (rule conjunct1)
  from emit_block_trace [OF e]
  show "\<exists>tr. length tr = length is + 1 \<and>
         tr ! 0 = agx_init_builder
                    (c\<lparr>blocks := blocks c @ [(agx_create_block c)\<lparr>instructions := []\<rparr>]\<rparr>)
                    (length (blocks c)) \<and>
         shader (tr ! length is) = c1 \<and>
         (\<forall>j < length is. agx_emit_instr (tr ! j) (is ! j) = Inr (tr ! Suc j) \<and>
            (\<exists>E. cursor_instructions (tr ! Suc j) = cursor_instructions (tr ! j) @ E))"
    by (rule conjunct2)
qed

theorem emit_cf_list_one_block_per_node_witness:
  "(\<exists>ctx' start.
      emit_cf_list (example_context MESA_SHADER_FRAGMENT)
        [nir_cf_node_block [nir_instr_type_load_const (example_load_const 1 32)],
         nir_cf_node_block []] = Inr (ctx', start) \<and>
      length (blocks ctx') = 3 \<and>
      take 1 (blocks ctx') = blocks (example_context MESA_SHADER_FRAGMENT) \<and>
      start = Some 1) \<and>
   (\<exists>e. emit_cf_list (example_context MESA_SHADER_FRAGMENT)
          [nir_cf_node_block [], nir_cf_node_if] = Inl e) \<and>
   (\<exists>c1. emit_block (example_context MESA_SHADER_FRAGMENT)
           [nir_instr_type_load_const (example_load_const 1 32)] = Inr (c1, 1))"
proof -
  let ?x = "example_context MESA_SHADER_FRAGMENT"
  let ?lc = "nir_instr_type_load_const (example_load_const 1 32)"
  let ?bs = "[[?lc], []]"
  have n: "length (blocks ?x) = 1" by (simp add: example_context_def)
  have sup: "\<forall>is \<in> set ?bs. \<forall>i \<in> set is. supported ?x i"
    by (simp add: supported_def example_load_const_def)
  note t = emit_cf_list_one_block_per_node [where ctx = ?x and bs = ?bs]
  from t [THEN conjunct2, THEN conjunct1, THEN mp, OF sup]
  obtain r where "emit_cf_list ?x (map nir_cf_node_block ?bs) = Inr r" ..
  moreover obtain ctx' start where "r = (ctx', start)" by (cases r)
  ultimately have run: "emit_cf_list ?x (map nir_cf_node_block ?bs) = Inr (ctx', start)" by simp
  note s = emit_cf_list_one_block_per_node [where ctx = ?x and bs = ?bs and ctx' = ctx'
      and start = start, THEN conjunct1, THEN mp, OF run]
  from s have "length (blocks ctx') = length (blocks ?x) + length ?bs" by (rule conjunct1)
  with n have l: "length (blocks ctx') = 3" by simp
  from s have "take (length (blocks ?x)) (blocks ctx') = blocks ?x" by (elim conjE)
  with n have tk: "take 1 (blocks ctx') = blocks ?x" by simp
  from s have "start = (if ?bs = [] then None else Some (length (blocks ?x)))" by (elim conjE)
  with n have st: "start = Some 1" by simp
  from run have run': "emit_cf_list ?x [nir_cf_node_block [?lc], nir_cf_node_block []] =
      Inr (ctx', start)" by simp
  have first: "\<exists>ctx' start.
      emit_cf_list ?x [nir_cf_node_block [?lc], nir_cf_node_block []] = Inr (ctx', start) \<and>
      length (blocks ctx') = 3 \<and> take 1 (blocks ctx') = blocks ?x \<and> start = Some 1"
    by (intro exI [of _ ctx'] exI [of _ start] conjI) (rule run' l tk st)+
  have "nir_cf_node_if \<in> set [nir_cf_node_block [], nir_cf_node_if] \<or>
      nir_cf_node_loop \<in> set [nir_cf_node_block [], nir_cf_node_if] \<or>
      nir_cf_node_function \<in> set [nir_cf_node_block [], nir_cf_node_if]" by simp
  then have second: "\<exists>e. emit_cf_list ?x [nir_cf_node_block [], nir_cf_node_if] = Inl e"
    by (rule emit_cf_list_one_block_per_node
          [where ctx = ?x and nodes = "[nir_cf_node_block [], nir_cf_node_if]",
           THEN conjunct2, THEN conjunct2, THEN conjunct1, THEN mp])
  have "\<forall>i \<in> set [?lc]. supported ?x i"
    by (simp add: supported_def example_load_const_def)
  from supported_emit_block [OF this] obtain c1 where
    e: "emit_block ?x [?lc] = Inr (c1, length (blocks ?x))" ..
  from emit_cf_list_one_block_per_node
          [of _ _ _ _ _ ?x "[?lc]" c1 "length (blocks ?x)",
           THEN conjunct2, THEN conjunct2, THEN conjunct2, THEN mp, OF e]
  have "length (blocks ?x) = length (blocks ?x)" by (rule conjunct1)
  with e n have "emit_block ?x [?lc] = Inr (c1, 1)" by simp
  then have third: "\<exists>c1. emit_block ?x [?lc] = Inr (c1, 1)" ..
  from first second third show ?thesis by (intro conjI)
qed

end
